theory Spec2Isabelle
  imports Complex_Main
begin

section \<open>Conventions of the embedding\<close>

text \<open>
  The module \<^verbatim>\<open>AMPS.py\<close> evaluates a spherical-harmonic model with numpy.  The embedding
  follows the class \<^verbatim>\<open>AMPS\<close> method by method.

  \<^item> Python and numpy floats are idealised as the real numbers: \<open>+\<close>, \<open>-\<close>, \<open>*\<close>, \<open>/\<close>,
    \<open>cos\<close> and \<open>sin\<close> are the exact operations.  Rounding, \<open>inf\<close> and \<open>nan\<close> are outside the
    model: where numpy divides an array by zero and gets \<open>inf\<close> or \<open>nan\<close>, the model
    holds HOL's \<open>x / 0 = 0\<close>, so what is proved of such an element (a key of degree 0, a
    latitude of 90 degrees) says nothing of numpy's value there.  The height is a python
    float, so dividing by \<open>REFRE + height = 0\<close> raises \<^verbatim>\<open>ZeroDivisionError\<close>.
  \<^item> Every exception of the source is a value of \<open>error\<close>; a method that may raise returns
    \<open>error + 'a\<close>.
  \<^item> The three collaborators that are imported from other modules (\<^verbatim>\<open>get_model_vectors\<close>,
    \<^verbatim>\<open>equalAreaGrid\<close>, \<^verbatim>\<open>get_legendre\<close>) are parameters of the methods that call them.
\<close>

datatype error = AssertionError | IndexError | KeyError | ValueError | ZeroDivisionError

definition bnd :: "error + 'a \<Rightarrow> ('a \<Rightarrow> error + 'b) \<Rightarrow> error + 'b" where
  "bnd r f = (case r of Inl e \<Rightarrow> Inl e | Inr x \<Rightarrow> f x)"

section \<open>numpy arrays of rank two\<close>

text \<open>
  An array of shape \<open>(r, c)\<close> is its shape and its list of rows.  A python list of floats
  is a \<open>real list\<close>; \<open>col\<close> and \<open>row\<close> make the \<open>(n, 1)\<close> and \<open>(1, n)\<close> arrays of it.
  An array of rank one, shape \<open>(n,)\<close>, broadcasts against an array of rank two exactly as
  the \<open>(1, n)\<close> array does, and an array of rank zero as the \<open>(1, 1)\<close> array; the only arrays
  of rank below two that the methods combine with others come out of \<^verbatim>\<open>squeeze\<close> (see
  \<open>stack_keys\<close>) and are at once multiplied with an array of rank two, so they are held in
  that form.
\<close>

datatype arr = Arr (nrows: nat) (ncols: nat) (rows: "real list list")

definition mk :: "nat \<Rightarrow> nat \<Rightarrow> (nat \<Rightarrow> nat \<Rightarrow> real) \<Rightarrow> arr" where
  "mk r c g = Arr r c (map (\<lambda>i. map (g i) [0..<c]) [0..<r])"

definition wf :: "arr \<Rightarrow> bool" where
  "wf A \<longleftrightarrow> length (rows A) = nrows A \<and> list_all (\<lambda>r. length r = ncols A) (rows A)"

definition col :: "real list \<Rightarrow> arr" where
  "col xs = Arr (length xs) 1 (map (\<lambda>x. [x]) xs)"

definition row :: "real list \<Rightarrow> arr" where
  "row xs = Arr 1 (length xs) [xs]"

definition flatten :: "arr \<Rightarrow> real list" where
  "flatten A = concat (rows A)"

text \<open>Broadcasting of one axis: equal lengths, or one of them is 1; else numpy raises.\<close>

definition bdim :: "nat \<Rightarrow> nat \<Rightarrow> error + nat" where
  "bdim a b = (if a = b then Inr a else if a = 1 then Inr b else if b = 1 then Inr a
               else Inl ValueError)"

definition pick :: "arr \<Rightarrow> nat \<Rightarrow> nat \<Rightarrow> real" where
  "pick A i j = rows A ! (if nrows A = 1 then 0 else i) ! (if ncols A = 1 then 0 else j)"

text \<open>An elementwise binary operator (\<^verbatim>\<open>A * B\<close>, \<^verbatim>\<open>A + B\<close>, \<^verbatim>\<open>A - B\<close>, \<^verbatim>\<open>A / B\<close>).\<close>

definition ew :: "(real \<Rightarrow> real \<Rightarrow> real) \<Rightarrow> arr \<Rightarrow> arr \<Rightarrow> error + arr" where
  "ew f A B =
     bnd (bdim (nrows A) (nrows B)) (\<lambda>r.
     bnd (bdim (ncols A) (ncols B)) (\<lambda>c.
     Inr (mk r c (\<lambda>i j. f (pick A i j) (pick B i j)))))"

text \<open>An elementwise function, or an operator with a python scalar (\<^verbatim>\<open>np.cos(A)\<close>, \<^verbatim>\<open>-A\<close>,
  \<^verbatim>\<open>A * x\<close>).\<close>

definition amap :: "(real \<Rightarrow> real) \<Rightarrow> arr \<Rightarrow> arr" where
  "amap f A = Arr (nrows A) (ncols A) (map (map f) (rows A))"

text \<open>\<^verbatim>\<open>np.dot(A, B)\<close> and \<^verbatim>\<open>A.dot(B)\<close> for arrays of rank two.\<close>

definition dot :: "arr \<Rightarrow> arr \<Rightarrow> error + arr" where
  "dot A B =
     (if ncols A = nrows B
      then Inr (mk (nrows A) (ncols B)
                  (\<lambda>i j. \<Sum>l\<leftarrow>[0..<ncols A]. rows A ! i ! l * rows B ! l ! j))
      else Inl ValueError)"

definition hstack :: "arr \<Rightarrow> arr \<Rightarrow> error + arr" where
  "hstack A B =
     (if nrows A = nrows B
      then Inr (Arr (nrows A) (ncols A + ncols B) (map2 (@) (rows A) (rows B)))
      else Inl ValueError)"

definition vstack :: "arr \<Rightarrow> arr \<Rightarrow> error + arr" where
  "vstack A B =
     (if ncols A = ncols B
      then Inr (Arr (nrows A + nrows B) (ncols A) (rows A @ rows B))
      else Inl ValueError)"

text \<open>\<^verbatim>\<open>np.split(A, 2)\<close>: two halves along the first axis, an error when it is odd.\<close>

definition split2 :: "arr \<Rightarrow> error + arr \<times> arr" where
  "split2 A =
     (if even (nrows A)
      then Inr (Arr (nrows A div 2) (ncols A) (take (nrows A div 2) (rows A)),
                Arr (nrows A div 2) (ncols A) (drop (nrows A div 2) (rows A)))
      else Inl ValueError)"

text \<open>\<^verbatim>\<open>np.reshape(A, (R, R))\<close> with a python int \<open>R\<close>: a negative \<open>R\<close> is refused (two
  dimensions \<open>-1\<close> cannot both be inferred), and so is a size other than \<open>R * R\<close>.\<close>

definition reshape :: "arr \<Rightarrow> int \<Rightarrow> error + arr" where
  "reshape A R =
     (if 0 \<le> R \<and> nrows A * ncols A = nat R * nat R
      then Inr (mk (nat R) (nat R) (\<lambda>i j. flatten A ! (i * nat R + j)))
      else Inl ValueError)"

text \<open>\<^verbatim>\<open>A.min()\<close> and \<^verbatim>\<open>A.max()\<close>: over all elements, an error on an empty array.\<close>

definition amin :: "arr \<Rightarrow> error + real" where
  "amin A = (if flatten A = [] then Inl ValueError else Inr (Min (set (flatten A))))"

definition amax :: "arr \<Rightarrow> error + real" where
  "amax A = (if flatten A = [] then Inl ValueError else Inr (Max (set (flatten A))))"

text \<open>The operators on results, left operand first, as python evaluates an expression.\<close>

definition ew2 :: "(real \<Rightarrow> real \<Rightarrow> real) \<Rightarrow> error + arr \<Rightarrow> error + arr \<Rightarrow> error + arr" where
  "ew2 f x y = bnd x (\<lambda>a. bnd y (\<lambda>b. ew f a b))"

definition dot2 :: "error + arr \<Rightarrow> error + arr \<Rightarrow> error + arr" where
  "dot2 x y = bnd x (\<lambda>a. bnd y (\<lambda>b. dot a b))"

definition hstack2 :: "error + arr \<Rightarrow> error + arr \<Rightarrow> error + arr" where
  "hstack2 x y = bnd x (\<lambda>a. bnd y (\<lambda>b. hstack a b))"

definition amap2 :: "(real \<Rightarrow> real) \<Rightarrow> error + arr \<Rightarrow> error + arr" where
  "amap2 f x = bnd x (\<lambda>a. Inr (amap f a))"

text \<open>\<^verbatim>\<open>x + y\<close> for two arrays of rank one (the flattened outputs).\<close>

definition add1 :: "real list \<Rightarrow> real list \<Rightarrow> error + real list" where
  "add1 xs ys =
     (if length xs = length ys then Inr (map2 (+) xs ys)
      else if length xs = 1 then Inr (map (\<lambda>y. xs ! 0 + y) ys)
      else if length ys = 1 then Inr (map (\<lambda>x. x + ys ! 0) xs)
      else Inl ValueError)"

text \<open>\<^verbatim>\<open>xs[mask]\<close> with a boolean mask: the lengths must agree.\<close>

definition bool_index :: "real list \<Rightarrow> bool list \<Rightarrow> error + real list" where
  "bool_index xs keep =
     (if length keep = length xs then Inr (map fst (filter snd (zip xs keep)))
      else Inl IndexError)"

text \<open>\<^verbatim>\<open>np.linspace(a, b, num)\<close>.\<close>

definition linspace :: "real \<Rightarrow> real \<Rightarrow> int \<Rightarrow> error + real list" where
  "linspace a b num =
     (if num < 0 then Inl ValueError
      else if num = 1 then Inr [a]
      else Inr (map (\<lambda>i. a + real i * ((b - a) / real (nat num - 1))) [0..<nat num]))"

section \<open>Harmonic keys and the collaborators\<close>

type_synonym key = "nat \<times> nat"

text \<open>\<^verbatim>\<open>get_model_vectors(v, By, Bz, tilt, F107)\<close> returns
  \<^verbatim>\<open>tor_c, tor_s, pol_c, pol_s, pol_keys, tor_keys\<close>; the four vectors are \<open>(k, 1)\<close> arrays
  (\<^verbatim>\<open>get_ground_perturbation\<close> stacks them with \<^verbatim>\<open>np.vstack\<close>), held as lists.\<close>

type_synonym model_provider =
  "real \<Rightarrow> real \<Rightarrow> real \<Rightarrow> real \<Rightarrow> real \<Rightarrow>
   real list \<times> real list \<times> real list \<times> real list \<times> key list \<times> key list"

text \<open>\<^verbatim>\<open>equalAreaGrid(dr, M0)\<close> returns three arrays of rank one.\<close>

type_synonym grid_provider = "int \<Rightarrow> int \<Rightarrow> real list \<times> real list \<times> real list"

text \<open>\<^verbatim>\<open>get_legendre(N, M, colat)\<close> takes a column of colatitudes and returns two
  dictionaries from keys to columns.\<close>

type_synonym legendre = "nat \<Rightarrow> nat \<Rightarrow> real list \<Rightarrow> (key \<rightharpoonup> real list) \<times> (key \<rightharpoonup> real list)"

text \<open>\<^verbatim>\<open>[tab[key] for key in keys]\<close>: the first missing key raises.\<close>

primrec lookup_keys :: "(key \<rightharpoonup> real list) \<Rightarrow> key list \<Rightarrow> error + real list list" where
  "lookup_keys tab [] = Inr []"
| "lookup_keys tab (k # ks) =
     (case tab k of None \<Rightarrow> Inl KeyError
      | Some c \<Rightarrow> bnd (lookup_keys tab ks) (\<lambda>cs. Inr (c # cs)))"

text \<open>
  \<^verbatim>\<open>np.array(cols).squeeze().T\<close> and \<^verbatim>\<open>np.array(cols).T.squeeze()\<close> for \<open>k\<close> columns of
  shape \<open>(n, 1)\<close>.  The stack has shape \<open>(k, n, 1)\<close>; both orders of \<^verbatim>\<open>squeeze\<close> and \<^verbatim>\<open>T\<close>
  give the same array.  With \<open>k \<ge> 2\<close> it is the \<open>(n, k)\<close> array (for \<open>n = 1\<close> the rank-one
  \<open>(k,)\<close>, which broadcasts as \<open>(1, k)\<close>).  With \<open>k = 1\<close> the key axis is squeezed away and
  the array is \<open>(n,)\<close>, which broadcasts as \<open>(1, n)\<close>.  Columns of different lengths do
  not make an array.
\<close>

definition stack_keys :: "real list list \<Rightarrow> error + arr" where
  "stack_keys cols =
     (case cols of
        [] \<Rightarrow> Inr (Arr 1 0 [[]])
      | c0 # _ \<Rightarrow>
          if list_all (\<lambda>c. length c = length c0) cols
          then (if length cols = 1 then Inr (Arr 1 (length c0) [c0])
                else Inr (mk (length c0) (length cols) (\<lambda>i j. cols ! j ! i)))
          else Inl ValueError)"

text \<open>\<^verbatim>\<open>np.array(keys).T[1][np.newaxis, :]\<close> (and \<^verbatim>\<open>T[0]\<close>): a row of orders (degrees);
  an empty key list has no second axis to index.\<close>

definition key_row :: "(key \<Rightarrow> nat) \<Rightarrow> key list \<Rightarrow> error + nat list" where
  "key_row sel ks = (if ks = [] then Inl IndexError else Inr (map sel ks))"

text \<open>\<^verbatim>\<open>np.max(np.hstack((np.array(ks1).T, np.array(ks2).T)), axis = 1)\<close>: the largest
  degree and the largest order over the two key lists it is given.\<close>

definition highest :: "key list \<Rightarrow> key list \<Rightarrow> error + nat \<times> nat" where
  "highest ks1 ks2 =
     (if ks1 @ ks2 = [] then Inl ValueError
      else Inr (Max (set (map fst (ks1 @ ks2))), Max (set (map snd (ks1 @ ks2)))))"

definition rowi :: "nat list \<Rightarrow> arr" where
  "rowi ns = row (map real ns)"

section \<open>The class AMPS\<close>

definition MU0 :: real where
  "MU0 = 4 * pi * (1 / 10 ^ 7)"

definition REFRE :: real where
  "REFRE = 6371.2"

record amps =
  tor_c :: "real list"
  tor_s :: "real list"
  pol_c :: "real list"
  pol_s :: "real list"
  pol_keys :: "key list"
  tor_keys :: "key list"
  height :: real
  dr :: int
  M0 :: int
  minlat :: real
  maxlat :: real
  keys_P :: "key list"
  keys_T :: "key list"
  m_P :: "nat list"
  m_T :: "nat list"
  n_P :: "nat list"
  n_T :: "nat list"
  N :: nat
  M :: nat
  vectorgrid :: "real list \<times> real list"
  scalargrid :: "real list \<times> real list"
  scalar_resolution :: int
  pol_cosmphi_vector :: arr
  pol_cosmphi_scalar :: arr
  pol_sinmphi_vector :: arr
  pol_sinmphi_scalar :: arr
  tor_cosmphi_vector :: arr
  tor_cosmphi_scalar :: arr
  tor_sinmphi_vector :: arr
  tor_sinmphi_scalar :: arr
  coslambda_vector :: arr
  pol_P_vector :: arr
  pol_dP_vector :: arr
  pol_P_scalar :: arr
  pol_dP_scalar :: arr
  tor_P_vector :: arr
  tor_dP_vector :: arr
  tor_P_scalar :: arr
  tor_dP_scalar :: arr

subsection \<open>update_model\<close>

definition update_model ::
  "model_provider \<Rightarrow> amps \<Rightarrow> real \<Rightarrow> real \<Rightarrow> real \<Rightarrow> real \<Rightarrow> real \<Rightarrow> amps" where
  "update_model gmv s v By Bz tilt F107 =
     (case gmv v By Bz tilt F107 of
        (tc, ts, pc, ps, pk, tk) \<Rightarrow>
          s\<lparr>tor_c := tc, tor_s := ts, pol_c := pc, pol_s := ps, pol_keys := pk, tor_keys := tk\<rparr>)"

subsection \<open>The grids\<close>

text \<open>\<^verbatim>\<open>_get_vectorgrid\<close>: bin centres of the equal-area grid inside the latitude band,
  then the southern hemisphere appended.\<close>

definition get_vectorgrid :: "grid_provider \<Rightarrow> amps \<Rightarrow> error + real list \<times> real list" where
  "get_vectorgrid eag s =
     (case eag (dr s) (M0 s) of
        (g0, g1, g2) \<Rightarrow>
          bnd (add1 g1 (map (\<lambda>x. x / 2) g2)) (\<lambda>mlt.
          if length g0 < 2 then Inl IndexError
          else
            let mlat = map (\<lambda>x. x + (g0 ! 1 - g0 ! 0) / 2) g0;
                keep = map (\<lambda>x. minlat s \<le> x \<and> x \<le> maxlat s) mlat
            in bnd (bool_index mlt keep) (\<lambda>mlt'.
               bnd (bool_index mlat keep) (\<lambda>mlat'.
               Inr (mlat' @ map uminus mlat', mlt' @ mlt')))))"

text \<open>\<^verbatim>\<open>_get_scalargrid\<close>: the raveled \<^verbatim>\<open>meshgrid\<close> of latitudes and longitudes, the
  southern hemisphere appended, longitudes scaled to hours and shifted by 12.  The method
  also stores the resolution.\<close>

definition get_scalargrid :: "amps \<Rightarrow> int \<Rightarrow> error + amps \<times> (real list \<times> real list)" where
  "get_scalargrid s resolution =
     bnd (linspace (minlat s) (maxlat s) resolution) (\<lambda>lats.
     bnd (linspace (- 179.9) 179.9 resolution) (\<lambda>lons.
       let mlat = concat (replicate (length lons) lats);
           mlt = concat (map (\<lambda>y. replicate (length lats) y) lons);
           mlat2 = mlat @ map uminus mlat;
           mlt2 = map (\<lambda>t. t * 12 / 180) (mlt @ mlt)
       in Inr (s\<lparr>scalar_resolution := resolution\<rparr>, (mlat2, map (\<lambda>t. t + 12) mlt2))))"

subsection \<open>calculate_matrices\<close>

text \<open>\<^verbatim>\<open>np.array([tab[key] for key in keys])\<close> followed by \<^verbatim>\<open>squeeze\<close> and \<^verbatim>\<open>T\<close>.\<close>

definition basis :: "(key \<rightharpoonup> real list) \<Rightarrow> key list \<Rightarrow> error + arr" where
  "basis tab ks = bnd (lookup_keys tab ks) stack_keys"

text \<open>\<^verbatim>\<open>f(ms * mlt * c)\<close> for the row \<open>ms\<close> of orders, the column \<open>mlt\<close> and \<open>f\<close> one of
  \<^verbatim>\<open>np.cos\<close>, \<^verbatim>\<open>np.sin\<close>.\<close>

definition azimuth :: "(real \<Rightarrow> real) \<Rightarrow> nat list \<Rightarrow> real list \<Rightarrow> real \<Rightarrow> error + arr" where
  "azimuth f ms mlt c = amap2 f (amap2 (\<lambda>x. x * c) (ew (*) (rowi ms) (col mlt)))"

text \<open>The method assigns its seventeen attributes one after the other; the model returns
  the state with all of them assigned, or the first error.\<close>

definition calculate_matrices :: "legendre \<Rightarrow> amps \<Rightarrow> error + amps" where
  "calculate_matrices lg s =
     (let mlt2r = pi / 12 in
      bnd (azimuth cos (m_P s) (snd (vectorgrid s)) mlt2r) (\<lambda>pcv.
      bnd (azimuth cos (m_P s) (snd (scalargrid s)) mlt2r) (\<lambda>pcs.
      bnd (azimuth sin (m_P s) (snd (vectorgrid s)) mlt2r) (\<lambda>psv.
      bnd (azimuth sin (m_P s) (snd (scalargrid s)) mlt2r) (\<lambda>pss.
      bnd (azimuth cos (m_T s) (snd (vectorgrid s)) mlt2r) (\<lambda>tcv.
      bnd (azimuth cos (m_T s) (snd (scalargrid s)) mlt2r) (\<lambda>tcs.
      bnd (azimuth sin (m_T s) (snd (vectorgrid s)) mlt2r) (\<lambda>tsv.
      bnd (azimuth sin (m_T s) (snd (scalargrid s)) mlt2r) (\<lambda>tss.
      let clv = amap cos (amap (\<lambda>x. x * pi / 180) (col (fst (vectorgrid s)))) in
      case lg (N s) (M s) (map (\<lambda>x. 90 - x) (fst (vectorgrid s))) of
        (vector_P, vector_dP) \<Rightarrow>
      case lg (N s) (M s) (map (\<lambda>x. 90 - x) (fst (scalargrid s))) of
        (scalar_P, scalar_dP) \<Rightarrow>
      bnd (basis vector_P (keys_P s)) (\<lambda>pPv.
      bnd (amap2 uminus (basis vector_dP (keys_P s))) (\<lambda>pdPv.
      bnd (basis scalar_P (keys_P s)) (\<lambda>pPs.
      bnd (amap2 uminus (basis scalar_dP (keys_P s))) (\<lambda>pdPs.
      bnd (basis vector_P (keys_T s)) (\<lambda>tPv.
      bnd (amap2 uminus (basis vector_dP (keys_T s))) (\<lambda>tdPv.
      bnd (basis scalar_P (keys_T s)) (\<lambda>tPs.
      bnd (amap2 uminus (basis scalar_dP (keys_T s))) (\<lambda>tdPs.
      Inr (s\<lparr>pol_cosmphi_vector := pcv, pol_cosmphi_scalar := pcs,
              pol_sinmphi_vector := psv, pol_sinmphi_scalar := pss,
              tor_cosmphi_vector := tcv, tor_cosmphi_scalar := tcs,
              tor_sinmphi_vector := tsv, tor_sinmphi_scalar := tss,
              coslambda_vector := clv,
              pol_P_vector := pPv, pol_dP_vector := pdPv,
              pol_P_scalar := pPs, pol_dP_scalar := pdPs,
              tor_P_vector := tPv, tor_dP_vector := tdPv,
              tor_P_scalar := tPs, tor_dP_scalar := tdPs\<rparr>))))))))))))))))))"

subsection \<open>The constructor\<close>

text \<open>An attribute that is not assigned yet holds \<open>unset\<close>; no method reads it before
  its assignment.\<close>

definition unset :: arr where
  "unset = Arr 0 0 []"

definition init ::
  "model_provider \<Rightarrow> grid_provider \<Rightarrow> legendre \<Rightarrow>
   real \<Rightarrow> real \<Rightarrow> real \<Rightarrow> real \<Rightarrow> real \<Rightarrow> real \<Rightarrow> real \<Rightarrow> real \<Rightarrow> int \<Rightarrow> int \<Rightarrow> int \<Rightarrow>
   error + amps" where
  "init gmv eag lg v By Bz tilt F107 minlat' maxlat' height' dr' M0' resolution =
     (case gmv v By Bz tilt F107 of
        (tc, ts, pc, ps, pk, tk) \<Rightarrow>
          if length ps = length pc \<and> length ps = length pc
          then
            bnd (key_row snd pk) (\<lambda>mP.
            bnd (key_row snd tk) (\<lambda>mT.
            bnd (key_row fst pk) (\<lambda>nP.
            bnd (key_row fst tk) (\<lambda>nT.
            bnd (highest tk tk) (\<lambda>NM.
              let s0 = \<lparr>tor_c = tc, tor_s = ts, pol_c = pc, pol_s = ps,
                        pol_keys = pk, tor_keys = tk,
                        height = height', dr = dr', M0 = M0',
                        minlat = minlat', maxlat = maxlat',
                        keys_P = pk, keys_T = tk,
                        m_P = mP, m_T = mT, n_P = nP, n_T = nT,
                        N = fst NM, M = snd NM,
                        vectorgrid = ([], []), scalargrid = ([], []),
                        scalar_resolution = 0,
                        pol_cosmphi_vector = unset, pol_cosmphi_scalar = unset,
                        pol_sinmphi_vector = unset, pol_sinmphi_scalar = unset,
                        tor_cosmphi_vector = unset, tor_cosmphi_scalar = unset,
                        tor_sinmphi_vector = unset, tor_sinmphi_scalar = unset,
                        coslambda_vector = unset,
                        pol_P_vector = unset, pol_dP_vector = unset,
                        pol_P_scalar = unset, pol_dP_scalar = unset,
                        tor_P_vector = unset, tor_dP_vector = unset,
                        tor_P_scalar = unset, tor_dP_scalar = unset\<rparr>
              in bnd (get_vectorgrid eag s0) (\<lambda>vg.
                 bnd (get_scalargrid (s0\<lparr>vectorgrid := vg\<rparr>) resolution) (\<lambda>r.
                 calculate_matrices lg ((fst r)\<lparr>scalargrid := snd r\<rparr>))))))))
          else Inl AssertionError)"

subsection \<open>The evaluators\<close>

text \<open>\<^verbatim>\<open>REFRE / (REFRE + self.height)\<close>, a division of python floats.\<close>

definition rr :: "amps \<Rightarrow> error + real" where
  "rr s = (if REFRE + height s = 0 then Inl ZeroDivisionError
           else Inr (REFRE / (REFRE + height s)))"

text \<open>\<^verbatim>\<open>get_upward_current\<close>.  \<^verbatim>\<open>map\<close> builds the list of the two reshaped halves.\<close>

definition get_upward_current :: "amps \<Rightarrow> error + arr list" where
  "get_upward_current s =
     (if MU0 * (REFRE + height s) = 0 then Inl ZeroDivisionError
      else
        let c = - (1 / 10 ^ 6) / (MU0 * (REFRE + height s));
            nn = row (map (\<lambda>n. real (n * (n + 1))) (n_T s))
        in bnd (amap2 (\<lambda>x. c * x)
                 (ew2 (+)
                    (dot2 (ew2 (*) (ew2 (*) (Inr nn) (Inr (tor_P_scalar s)))
                                   (Inr (tor_cosmphi_scalar s)))
                          (Inr (col (tor_c s))))
                    (dot2 (ew2 (*) (ew2 (*) (Inr nn) (Inr (tor_P_scalar s)))
                                   (Inr (tor_sinmphi_scalar s)))
                          (Inr (col (tor_s s)))))) (\<lambda>Ju.
           bnd (split2 Ju) (\<lambda>h.
           bnd (reshape (fst h) (scalar_resolution s)) (\<lambda>Ju_n.
           bnd (reshape (snd h) (scalar_resolution s)) (\<lambda>Ju_s.
           Inr [Ju_n, Ju_s])))))"

text \<open>\<^verbatim>\<open>get_divergence_free_current\<close>.  An argument left at \<^verbatim>\<open>DEFAULT\<close> is \<open>None\<close>; an
  array argument is given by its flattened elements.\<close>

definition df_rtor :: "amps \<Rightarrow> real \<Rightarrow> arr" where
  "df_rtor s q =
     row (map (\<lambda>n. q ^ (n + 2) * (2 * real n + 1) / real n / MU0 * (1 / 10 ^ 6)) (n_P s))"

definition df_cached :: "amps \<Rightarrow> arr \<Rightarrow> error + real list \<times> real list" where
  "df_cached s rtor =
     bnd (ew2 (+)
            (dot2 (ew2 (*) (ew2 (*) (Inr rtor) (Inr (pol_dP_vector s)))
                           (Inr (pol_cosmphi_vector s)))
                  (Inr (col (pol_c s))))
            (dot2 (ew2 (*) (ew2 (*) (Inr rtor) (Inr (pol_dP_vector s)))
                           (Inr (pol_sinmphi_vector s)))
                  (Inr (col (pol_s s))))) (\<lambda>east.
     bnd (ew2 (/)
            (amap2 uminus
               (ew2 (-)
                  (dot2 (ew2 (*) (ew2 (*) (ew2 (*) (Inr rtor) (Inr (pol_P_vector s)))
                                          (Inr (rowi (m_P s))))
                                 (Inr (pol_cosmphi_vector s)))
                        (Inr (col (pol_s s))))
                  (dot2 (ew2 (*) (ew2 (*) (ew2 (*) (Inr rtor) (Inr (pol_P_vector s)))
                                          (Inr (rowi (m_P s))))
                                 (Inr (pol_sinmphi_vector s)))
                        (Inr (col (pol_c s))))))
            (Inr (coslambda_vector s))) (\<lambda>north.
     Inr (flatten east, flatten north)))"

definition df_custom ::
  "legendre \<Rightarrow> amps \<Rightarrow> arr \<Rightarrow> real list \<Rightarrow> real list \<Rightarrow> error + real list \<times> real list" where
  "df_custom lg s rtor mlat mlt =
     (case lg (N s) (M s) (map (\<lambda>x. 90 - x) mlat) of
        (Ptab, dPtab) \<Rightarrow>
          bnd (basis Ptab (keys_P s)) (\<lambda>P.
          bnd (amap2 uminus (basis dPtab (keys_P s))) (\<lambda>dP.
          bnd (amap2 cos (amap2 (\<lambda>x. x / 12) (amap2 (\<lambda>x. x * pi)
                 (ew (*) (rowi (m_P s)) (col mlt))))) (\<lambda>cosmphi.
          bnd (amap2 sin (amap2 (\<lambda>x. x / 12) (amap2 (\<lambda>x. x * pi)
                 (ew (*) (rowi (m_P s)) (col mlt))))) (\<lambda>sinmphi.
          let coslambda = amap cos (amap (\<lambda>x. x * pi / 180) (col mlat)) in
          bnd (ew2 (+)
                 (dot2 (ew2 (*) (ew2 (*) (Inr rtor) (Inr dP)) (Inr cosmphi))
                       (Inr (col (pol_c s))))
                 (dot2 (ew2 (*) (ew2 (*) (Inr rtor) (Inr dP)) (Inr sinmphi))
                       (Inr (col (pol_s s))))) (\<lambda>east.
          bnd (ew2 (/)
                 (ew2 (+)
                    (amap2 uminus
                       (dot2 (ew2 (*) (ew2 (*) (ew2 (*) (Inr rtor) (Inr P))
                                               (Inr (rowi (m_P s))))
                                      (Inr cosmphi))
                             (Inr (col (pol_s s)))))
                    (dot2 (ew2 (*) (ew2 (*) (ew2 (*) (Inr rtor) (Inr P))
                                            (Inr (rowi (m_P s))))
                                   (Inr sinmphi))
                          (Inr (col (pol_c s)))))
                 (Inr coslambda)) (\<lambda>north.
          Inr (flatten east, flatten north))))))))"

definition get_divergence_free_current ::
  "legendre \<Rightarrow> amps \<Rightarrow> real list option \<Rightarrow> real list option \<Rightarrow>
   error + real list \<times> real list" where
  "get_divergence_free_current lg s mlat mlt =
     bnd (rr s) (\<lambda>q.
       case mlat of
         None \<Rightarrow> df_cached s (df_rtor s q)
       | Some a \<Rightarrow>
           (case mlt of
              None \<Rightarrow> df_cached s (df_rtor s q)
            | Some b \<Rightarrow> df_custom lg s (df_rtor s q) a b))"

text \<open>\<^verbatim>\<open>get_curl_free_current\<close>; here \<^verbatim>\<open>rtor\<close> is the python float \<^verbatim>\<open>-1.e-6/MU0\<close>.\<close>

definition cf_rtor :: real where
  "cf_rtor = - (1 / 10 ^ 6) / MU0"

definition cf_cached :: "amps \<Rightarrow> error + real list \<times> real list" where
  "cf_cached s =
     bnd (ew2 (/)
            (amap2 (\<lambda>x. cf_rtor * x)
               (ew2 (-)
                  (dot2 (ew2 (*) (ew2 (*) (Inr (tor_P_vector s)) (Inr (rowi (m_T s))))
                                 (Inr (tor_cosmphi_vector s)))
                        (Inr (col (tor_s s))))
                  (dot2 (ew2 (*) (ew2 (*) (Inr (tor_P_vector s)) (Inr (rowi (m_T s))))
                                 (Inr (tor_sinmphi_vector s)))
                        (Inr (col (tor_c s))))))
            (Inr (coslambda_vector s))) (\<lambda>east.
     bnd (amap2 (\<lambda>x. cf_rtor * x)
            (ew2 (+)
               (dot2 (ew2 (*) (Inr (tor_dP_vector s)) (Inr (tor_cosmphi_vector s)))
                     (Inr (col (tor_c s))))
               (dot2 (ew2 (*) (Inr (tor_dP_vector s)) (Inr (tor_sinmphi_vector s)))
                     (Inr (col (tor_s s)))))) (\<lambda>north.
     Inr (flatten east, flatten north)))"

definition cf_custom ::
  "legendre \<Rightarrow> amps \<Rightarrow> real list \<Rightarrow> real list \<Rightarrow> error + real list \<times> real list" where
  "cf_custom lg s mlat mlt =
     (case lg (N s) (M s) (map (\<lambda>x. 90 - x) mlat) of
        (Ptab, dPtab) \<Rightarrow>
          bnd (basis Ptab (keys_T s)) (\<lambda>P.
          bnd (amap2 uminus (basis dPtab (keys_T s))) (\<lambda>dP.
          bnd (amap2 cos (amap2 (\<lambda>x. x / 12) (amap2 (\<lambda>x. x * pi)
                 (ew (*) (rowi (m_T s)) (col mlt))))) (\<lambda>cosmphi.
          bnd (amap2 sin (amap2 (\<lambda>x. x / 12) (amap2 (\<lambda>x. x * pi)
                 (ew (*) (rowi (m_T s)) (col mlt))))) (\<lambda>sinmphi.
          let coslambda = amap cos (amap (\<lambda>x. x * pi / 180) (col mlat)) in
          bnd (ew2 (/)
                 (ew2 (-)
                    (dot2 (ew2 (*) (ew2 (*) (Inr (amap (\<lambda>x. cf_rtor * x) P))
                                            (Inr (rowi (m_T s))))
                                   (Inr cosmphi))
                          (Inr (col (tor_s s))))
                    (dot2 (ew2 (*) (ew2 (*) (Inr (amap (\<lambda>x. cf_rtor * x) P))
                                            (Inr (rowi (m_T s))))
                                   (Inr sinmphi))
                          (Inr (col (tor_c s)))))
                 (Inr coslambda)) (\<lambda>east.
          bnd (ew2 (+)
                 (dot2 (ew2 (*) (Inr (amap (\<lambda>x. cf_rtor * x) dP)) (Inr cosmphi))
                       (Inr (col (tor_c s))))
                 (dot2 (ew2 (*) (Inr (amap (\<lambda>x. cf_rtor * x) dP)) (Inr sinmphi))
                       (Inr (col (tor_s s))))) (\<lambda>north.
          Inr (flatten east, flatten north))))))))"

definition get_curl_free_current ::
  "legendre \<Rightarrow> amps \<Rightarrow> real list option \<Rightarrow> real list option \<Rightarrow>
   error + real list \<times> real list" where
  "get_curl_free_current lg s mlat mlt =
     (case mlat of
        None \<Rightarrow> cf_cached s
      | Some a \<Rightarrow>
          (case mlt of
             None \<Rightarrow> cf_cached s
           | Some b \<Rightarrow> cf_custom lg s a b))"

text \<open>\<^verbatim>\<open>get_total_current\<close>: the list \<^verbatim>\<open>[x + y for x, y in zip(curl_free, div_free)]\<close>;
  the curl-free part is evaluated first.\<close>

definition get_total_current ::
  "legendre \<Rightarrow> amps \<Rightarrow> real list option \<Rightarrow> real list option \<Rightarrow> error + real list list" where
  "get_total_current lg s mlat mlt =
     bnd (get_curl_free_current lg s mlat mlt) (\<lambda>cf.
     bnd (get_divergence_free_current lg s mlat mlt) (\<lambda>df.
     bnd (add1 (fst cf) (fst df)) (\<lambda>east.
     bnd (add1 (snd cf) (snd df)) (\<lambda>north.
     Inr [east, north]))))"

text \<open>\<^verbatim>\<open>get_ground_perturbation(mlat, mlt)\<close> returns the two \<open>(n, 1)\<close> arrays
  \<^verbatim>\<open>Ge.dot(model), Gn.dot(model)\<close>.\<close>

definition get_ground_perturbation ::
  "legendre \<Rightarrow> amps \<Rightarrow> real list \<Rightarrow> real list \<Rightarrow> error + arr \<times> arr" where
  "get_ground_perturbation lg s mlat mlt =
     bnd (rr s) (\<lambda>q.
     case lg (N s) (M s) (map (\<lambda>x. 90 - x) mlat) of
       (Ptab, dPtab) \<Rightarrow>
         bnd (basis Ptab (keys_P s)) (\<lambda>P.
         bnd (basis dPtab (keys_P s)) (\<lambda>dP.
         bnd (amap2 cos (amap2 (\<lambda>x. x / 12) (amap2 (\<lambda>x. x * pi)
                (ew (*) (rowi (m_P s)) (col mlt))))) (\<lambda>cosmphi.
         bnd (amap2 sin (amap2 (\<lambda>x. x / 12) (amap2 (\<lambda>x. x * pi)
                (ew (*) (rowi (m_P s)) (col mlt))))) (\<lambda>sinmphi.
         bnd (ew (*) (row (map (\<lambda>n. - (q ^ (2 * n + 1)) * (real n + 1) / real n) (n_P s)))
                 dP) (\<lambda>G_cn.
         bnd (hstack2 (ew (*) G_cn cosmphi) (ew (*) G_cn sinmphi)) (\<lambda>Gn.
         bnd (ew2 (/)
                (ew2 (*)
                   (ew (*) (row (map (\<lambda>n. q ^ (2 * n + 1) * (real n + 1) / real n) (n_P s)))
                       P)
                   (Inr (rowi (m_P s))))
                (Inr (amap cos (amap (\<lambda>x. x * pi / 180) (col mlat))))) (\<lambda>G_ce.
         bnd (hstack2 (ew (*) (amap uminus G_ce) sinmphi) (ew (*) G_ce cosmphi)) (\<lambda>Ge.
         bnd (vstack (col (pol_c s)) (col (pol_s s))) (\<lambda>model.
         bnd (dot Ge model) (\<lambda>dB_east.
         bnd (dot Gn model) (\<lambda>dB_north.
         Inr (dB_east, dB_north)))))))))))))"

text \<open>\<^verbatim>\<open>get_AE_indices\<close> returns \<^verbatim>\<open>Bn_n.min(), Bn_s.min(), Bn_n.max(), Bn_s.max()\<close>.\<close>

definition get_AE_indices :: "amps \<Rightarrow> error + real \<times> real \<times> real \<times> real" where
  "get_AE_indices s =
     bnd (rr s) (\<lambda>q.
     bnd (ew (*) (row (map (\<lambda>n. q ^ (2 * n + 1) * (real n + 1) / real n) (n_P s)))
             (pol_dP_scalar s)) (\<lambda>G_cn.
     bnd (hstack2 (ew (*) G_cn (pol_cosmphi_scalar s))
                  (ew (*) G_cn (pol_sinmphi_scalar s))) (\<lambda>Gn.
     bnd (dot2 (Inr Gn) (vstack (col (pol_c s)) (col (pol_s s)))) (\<lambda>Bn.
     bnd (split2 Bn) (\<lambda>h.
     bnd (amin (fst h)) (\<lambda>AL_n.
     bnd (amin (snd h)) (\<lambda>AL_s.
     bnd (amax (fst h)) (\<lambda>AU_n.
     bnd (amax (snd h)) (\<lambda>AU_s.
     Inr (AL_n, AL_s, AU_n, AU_s))))))))))"

section \<open>Well-formed arrays, providers and engines\<close>

text \<open>An array is well formed when its rows are as many and as long as its shape says;
  every array the operations above build is.\<close>

definition wfE :: "error + arr \<Rightarrow> bool" where
  "wfE x = (case x of Inl e \<Rightarrow> True | Inr a \<Rightarrow> wf a)"

text \<open>The Legendre provider returns, for every key it has, a column as long as the column
  of colatitudes it was given (section 6 of the specification: ``an array aligned to the
  input colatitude array'').\<close>

definition aligned :: "legendre \<Rightarrow> bool" where
  "aligned lg \<longleftrightarrow>
     (\<forall>n m th k c. (fst (lg n m th) k = Some c \<or> snd (lg n m th) k = Some c)
        \<longrightarrow> length c = length th)"

text \<open>The state of an engine as the constructor leaves it and \<open>update_model\<close> keeps it:
  the cached matrices are the ones \<open>calculate_matrices\<close> computes from the grids and the
  keys, the rows of orders and degrees are those of \<open>keys_P\<close> and \<open>keys_T\<close>, and each grid
  has as many latitudes as local times.  The coefficient vectors are left free.\<close>

definition engine_ok :: "legendre \<Rightarrow> amps \<Rightarrow> bool" where
  "engine_ok lg s \<longleftrightarrow>
     calculate_matrices lg s = Inr s \<and>
     m_P s = map snd (keys_P s) \<and> n_P s = map fst (keys_P s) \<and>
     m_T s = map snd (keys_T s) \<and> n_T s = map fst (keys_T s) \<and>
     length (fst (vectorgrid s)) = length (snd (vectorgrid s)) \<and>
     length (fst (scalargrid s)) = length (snd (scalargrid s)) \<and>
     0 < length (keys_P s) \<and> 0 < length (keys_T s)"

text \<open>The Legendre provider, asked for degree \<open>n\<close> and order \<open>m\<close>, has a column for each
  of the keys \<open>ks\<close> in both of its dictionaries.\<close>

definition serves :: "legendre \<Rightarrow> nat \<Rightarrow> nat \<Rightarrow> key list \<Rightarrow> bool" where
  "serves lg n m ks \<longleftrightarrow>
     (\<forall>th. list_all (\<lambda>k. fst (lg n m th) k \<noteq> None \<and> snd (lg n m th) k \<noteq> None) ks)"

text \<open>The shape of a result, \<open>None\<close> for an error, and the shapes that broadcasting, the
  matrix product and the stacks give.\<close>

definition shE :: "error + arr \<Rightarrow> (nat \<times> nat) option" where
  "shE x = (case x of Inl e \<Rightarrow> None | Inr a \<Rightarrow> Some (nrows a, ncols a))"

definition bsh :: "(nat \<times> nat) option \<Rightarrow> (nat \<times> nat) option \<Rightarrow> (nat \<times> nat) option" where
  "bsh x y =
     (case x of None \<Rightarrow> None | Some a \<Rightarrow>
      case y of None \<Rightarrow> None | Some b \<Rightarrow>
      case bdim (fst a) (fst b) of Inl e \<Rightarrow> None | Inr r \<Rightarrow>
      case bdim (snd a) (snd b) of Inl e \<Rightarrow> None | Inr c \<Rightarrow> Some (r, c))"

definition dsh :: "(nat \<times> nat) option \<Rightarrow> (nat \<times> nat) option \<Rightarrow> (nat \<times> nat) option" where
  "dsh x y =
     (case x of None \<Rightarrow> None | Some a \<Rightarrow>
      case y of None \<Rightarrow> None | Some b \<Rightarrow>
      if snd a = fst b then Some (fst a, snd b) else None)"

definition hsh :: "(nat \<times> nat) option \<Rightarrow> (nat \<times> nat) option \<Rightarrow> (nat \<times> nat) option" where
  "hsh x y =
     (case x of None \<Rightarrow> None | Some a \<Rightarrow>
      case y of None \<Rightarrow> None | Some b \<Rightarrow>
      if fst a = fst b then Some (fst a, snd a + snd b) else None)"

section \<open>Concrete collaborators for the evaluated instances\<close>

text \<open>A provider whose poloidal keys reach degree 3 and order 2 while its toroidal keys
  stop at degree 1, a small equal-area grid, and two Legendre providers: one that has a
  column for every key, and one that has columns only up to the degree and order it is
  asked for.\<close>

definition gmv_high_pol :: model_provider where
  "gmv_high_pol v By Bz tilt F107 =
     ([v, 2], [3, By], [Bz, 5], [6, tilt], [(3, 2), (2, 0)], [(1, 0), (1, 1)])"

definition gmv_short_tor_s :: model_provider where
  "gmv_short_tor_s v By Bz tilt F107 =
     ([v, 2], [3], [Bz, 5], [6, tilt], [(1, 0), (1, 1)], [(1, 0), (1, 1)])"

definition eag3 :: grid_provider where
  "eag3 d m = ([60, 70, 80], [0, 8, 16], [8, 8, 8])"

definition lg_all :: legendre where
  "lg_all n m th =
     (\<lambda>k. Some (map (\<lambda>t. real (fst k) * t) th), \<lambda>k. Some (map (\<lambda>t. real (snd k) + t) th))"

definition lg_upto :: legendre where
  "lg_upto n m th =
     (\<lambda>k. if fst k \<le> n \<and> snd k \<le> m then Some (map (\<lambda>t. real (fst k) * t) th) else None,
      \<lambda>k. if fst k \<le> n \<and> snd k \<le> m then Some (map (\<lambda>t. real (snd k) + t) th) else None)"

section \<open>Lemmas on the array operations\<close>

lemma bnd_Inr_iff: "bnd x f = Inr y \<longleftrightarrow> (\<exists>a. x = Inr a \<and> f a = Inr y)"
  by (cases x) (auto simp: bnd_def)

lemma bnd_Inl_iff: "bnd x f = Inl e \<longleftrightarrow> x = Inl e \<or> (\<exists>a. x = Inr a \<and> f a = Inl e)"
  by (cases x) (auto simp: bnd_def)

lemma bnd_Inr [simp]: "bnd (Inr a) f = f a"
  by (simp add: bnd_def)

lemma bnd_Inl [simp]: "bnd (Inl e) f = Inl e"
  by (simp add: bnd_def)

lemma nrows_mk [simp]: "nrows (mk r c g) = r"
  and ncols_mk [simp]: "ncols (mk r c g) = c"
  by (simp_all add: mk_def)

lemma rows_mk_nth [simp]: "i < r \<Longrightarrow> j < c \<Longrightarrow> rows (mk r c g) ! i ! j = g i j"
  by (simp add: mk_def)

lemma mk_cong: "(\<And>i j. i < r \<Longrightarrow> j < c \<Longrightarrow> g i j = h i j) \<Longrightarrow> mk r c g = mk r c h"
  by (simp add: mk_def)

lemma wf_mk [simp]: "wf (mk r c g)"
  by (simp add: wf_def mk_def list_all_iff)

lemma wf_col [simp]: "wf (col xs)"
  by (simp add: wf_def col_def list_all_iff)

lemma wf_row [simp]: "wf (row xs)"
  by (simp add: wf_def row_def)

lemma wf_rowi [simp]: "wf (rowi ns)"
  by (simp add: rowi_def)

lemma wf_amap [simp]: "wf A \<Longrightarrow> wf (amap f A)"
  by (simp add: wf_def amap_def list_all_iff)

lemma nrows_amap [simp]: "nrows (amap f A) = nrows A"
  and ncols_amap [simp]: "ncols (amap f A) = ncols A"
  by (simp_all add: amap_def)

lemma amap_mk: "amap h (mk r c g) = mk r c (\<lambda>i j. h (g i j))"
  by (simp add: amap_def mk_def)

lemma amap_amap: "amap f (amap g A) = amap (\<lambda>x. f (g x)) A"
  by (simp add: amap_def comp_def)

lemma bdim_idx_l: "bdim a b = Inr r \<Longrightarrow> i < r \<Longrightarrow> (if a = 1 then 0 else i) < a"
  by (auto simp: bdim_def split: if_splits)

lemma bdim_idx_r: "bdim a b = Inr r \<Longrightarrow> i < r \<Longrightarrow> (if b = 1 then 0 else i) < b"
  by (auto simp: bdim_def split: if_splits)

lemma wf_nth: "wf A \<Longrightarrow> i < nrows A \<Longrightarrow> length (rows A ! i) = ncols A"
  by (simp add: wf_def list_all_length)

lemma pick_amap_l:
  "wf A \<Longrightarrow> bdim (nrows A) x = Inr r \<Longrightarrow> bdim (ncols A) y = Inr c \<Longrightarrow> i < r \<Longrightarrow> j < c \<Longrightarrow>
   pick (amap g A) i j = g (pick A i j)"
  using bdim_idx_l[of "nrows A" x r i] bdim_idx_l[of "ncols A" y c j]
  by (simp add: pick_def amap_def wf_def list_all_length)

lemma pick_amap_r:
  "wf A \<Longrightarrow> bdim x (nrows A) = Inr r \<Longrightarrow> bdim y (ncols A) = Inr c \<Longrightarrow> i < r \<Longrightarrow> j < c \<Longrightarrow>
   pick (amap g A) i j = g (pick A i j)"
  using bdim_idx_r[of x "nrows A" r i] bdim_idx_r[of y "ncols A" c j]
  by (simp add: pick_def amap_def wf_def list_all_length)

lemma ew_amap_left: "wf A \<Longrightarrow> ew f (amap g A) B = ew (\<lambda>a b. f (g a) b) A B"
  unfolding ew_def
  by (cases "bdim (nrows A) (nrows B)"; cases "bdim (ncols A) (ncols B)")
     (auto intro!: mk_cong simp: pick_amap_l)

lemma ew_amap_right: "wf B \<Longrightarrow> ew f A (amap g B) = ew (\<lambda>a b. f a (g b)) A B"
  unfolding ew_def
  by (cases "bdim (nrows A) (nrows B)"; cases "bdim (ncols A) (ncols B)")
     (auto intro!: mk_cong simp: pick_amap_r)

lemma amap2_ew: "amap2 h (ew f A B) = ew (\<lambda>a b. h (f a b)) A B"
  unfolding ew_def amap2_def
  by (cases "bdim (nrows A) (nrows B)"; cases "bdim (ncols A) (ncols B)")
     (auto simp: amap_mk)

lemma wf_ew: "ew f A B = Inr C \<Longrightarrow> wf C"
  by (auto simp: ew_def bnd_Inr_iff)

lemma wf_dot: "dot A B = Inr C \<Longrightarrow> wf C"
  by (auto simp: dot_def split: if_splits)

lemma wfE_Inr [simp]: "wfE (Inr A) = wf A"
  by (simp add: wfE_def)

lemma wfE_Inl [simp]: "wfE (Inl e)"
  by (simp add: wfE_def)

lemma wfE_ew2 [simp]: "wfE (ew2 f X Y)"
  by (cases X; cases Y) (auto simp: ew2_def wfE_def wf_ew split: sum.splits)

lemma wfE_ew [simp]: "wfE (ew f A B)"
  by (auto simp: wfE_def wf_ew split: sum.splits)

lemma wfE_dot2 [simp]: "wfE (dot2 X Y)"
  by (cases X; cases Y) (auto simp: dot2_def wfE_def wf_dot split: sum.splits)

lemma wfE_amap2 [simp]: "wfE X \<Longrightarrow> wfE (amap2 f X)"
  by (cases X) (auto simp: amap2_def)

lemma amap2_Inr [simp]: "amap2 f (Inr A) = Inr (amap f A)"
  by (simp add: amap2_def)

lemma amap2_Inl [simp]: "amap2 f (Inl e) = Inl e"
  by (simp add: amap2_def)

lemma ew2_Inr [simp]: "ew2 f (Inr A) (Inr B) = ew f A B"
  by (simp add: ew2_def)

lemma ew2_Inl [simp]: "ew2 f (Inl e) Y = Inl e"
  by (simp add: ew2_def)

lemma ew2_Inr_Inl [simp]: "ew2 f (Inr A) (Inl e) = Inl e"
  by (simp add: ew2_def)

lemma dot2_Inr [simp]: "dot2 (Inr A) (Inr B) = dot A B"
  by (simp add: dot2_def)

lemma dot2_Inl [simp]: "dot2 (Inl e) Y = Inl e"
  by (simp add: dot2_def)

lemma dot2_Inr_Inl [simp]: "dot2 (Inr A) (Inl e) = Inl e"
  by (simp add: dot2_def)

lemma amap2_amap2: "amap2 f (amap2 g X) = amap2 (\<lambda>x. f (g x)) X"
  by (cases X) (simp_all add: amap_amap)

lemma ew2_amap2_left: "wfE X \<Longrightarrow> ew2 f (amap2 g X) Y = ew2 (\<lambda>a b. f (g a) b) X Y"
  by (cases X; cases Y) (simp_all add: ew_amap_left)

lemma ew2_amap2_right: "wfE Y \<Longrightarrow> ew2 f X (amap2 g Y) = ew2 (\<lambda>a b. f a (g b)) X Y"
  by (cases X; cases Y) (simp_all add: ew_amap_right)

lemma amap2_ew2: "amap2 h (ew2 f X Y) = ew2 (\<lambda>a b. h (f a b)) X Y"
  by (cases X; cases Y) (simp_all add: amap2_ew)

lemma dot_amap_left:
  assumes "wf A"
  shows "dot (amap (\<lambda>x. c * x) A) B = amap2 (\<lambda>x. c * x) (dot A B)"
proof (cases "ncols A = nrows B")
  case True
  have "mk (nrows A) (ncols B)
          (\<lambda>i j. \<Sum>l\<leftarrow>[0..<ncols A]. rows (amap (\<lambda>x. c * x) A) ! i ! l * rows B ! l ! j) =
        mk (nrows A) (ncols B)
          (\<lambda>i j. c * (\<Sum>l\<leftarrow>[0..<ncols A]. rows A ! i ! l * rows B ! l ! j))"
  proof (rule mk_cong)
    fix i j
    assume i: "i < nrows A" and "j < ncols B"
    have "rows (amap (\<lambda>x. c * x) A) ! i ! l = c * rows A ! i ! l" if "l < ncols A" for l
      using assms i that by (simp add: amap_def wf_def list_all_length)
    then have "map (\<lambda>l. rows (amap (\<lambda>x. c * x) A) ! i ! l * rows B ! l ! j) [0..<ncols A] =
               map (\<lambda>l. c * (rows A ! i ! l * rows B ! l ! j)) [0..<ncols A]"
      by (simp add: mult.assoc)
    then have "(\<Sum>l\<leftarrow>[0..<ncols A]. rows (amap (\<lambda>x. c * x) A) ! i ! l * rows B ! l ! j) =
               (\<Sum>l\<leftarrow>[0..<ncols A]. c * (rows A ! i ! l * rows B ! l ! j))"
      by (rule arg_cong)
    also have "\<dots> = c * (\<Sum>l\<leftarrow>[0..<ncols A]. rows A ! i ! l * rows B ! l ! j)"
      by (rule sum_list_const_mult)
    finally show "(\<Sum>l\<leftarrow>[0..<ncols A]. rows (amap (\<lambda>x. c * x) A) ! i ! l * rows B ! l ! j) =
               c * (\<Sum>l\<leftarrow>[0..<ncols A]. rows A ! i ! l * rows B ! l ! j)" .
  qed
  with True show ?thesis by (simp add: dot_def amap_mk)
next
  case False
  then show ?thesis by (simp add: dot_def)
qed

lemma dot2_amap2_left: "wfE X \<Longrightarrow> dot2 (amap2 (\<lambda>x. c * x) X) Y = amap2 (\<lambda>x. c * x) (dot2 X Y)"
  by (cases X; cases Y) (simp_all add: dot_amap_left)

subsection \<open>calculate_matrices\<close>

lemma calculate_matrices_D:
  assumes "calculate_matrices lg s = Inr s'"
  shows "\<exists>pcv pcs psv pss tcv tcs tsv tss pPv pdPv pPs pdPs tPv tdPv tPs tdPs.
    azimuth cos (m_P s) (snd (vectorgrid s)) (pi / 12) = Inr pcv \<and>
    azimuth cos (m_P s) (snd (scalargrid s)) (pi / 12) = Inr pcs \<and>
    azimuth sin (m_P s) (snd (vectorgrid s)) (pi / 12) = Inr psv \<and>
    azimuth sin (m_P s) (snd (scalargrid s)) (pi / 12) = Inr pss \<and>
    azimuth cos (m_T s) (snd (vectorgrid s)) (pi / 12) = Inr tcv \<and>
    azimuth cos (m_T s) (snd (scalargrid s)) (pi / 12) = Inr tcs \<and>
    azimuth sin (m_T s) (snd (vectorgrid s)) (pi / 12) = Inr tsv \<and>
    azimuth sin (m_T s) (snd (scalargrid s)) (pi / 12) = Inr tss \<and>
    basis (fst (lg (N s) (M s) (map (\<lambda>x. 90 - x) (fst (vectorgrid s))))) (keys_P s) = Inr pPv \<and>
    amap2 uminus (basis (snd (lg (N s) (M s) (map (\<lambda>x. 90 - x) (fst (vectorgrid s))))) (keys_P s)) = Inr pdPv \<and>
    basis (fst (lg (N s) (M s) (map (\<lambda>x. 90 - x) (fst (scalargrid s))))) (keys_P s) = Inr pPs \<and>
    amap2 uminus (basis (snd (lg (N s) (M s) (map (\<lambda>x. 90 - x) (fst (scalargrid s))))) (keys_P s)) = Inr pdPs \<and>
    basis (fst (lg (N s) (M s) (map (\<lambda>x. 90 - x) (fst (vectorgrid s))))) (keys_T s) = Inr tPv \<and>
    amap2 uminus (basis (snd (lg (N s) (M s) (map (\<lambda>x. 90 - x) (fst (vectorgrid s))))) (keys_T s)) = Inr tdPv \<and>
    basis (fst (lg (N s) (M s) (map (\<lambda>x. 90 - x) (fst (scalargrid s))))) (keys_T s) = Inr tPs \<and>
    amap2 uminus (basis (snd (lg (N s) (M s) (map (\<lambda>x. 90 - x) (fst (scalargrid s))))) (keys_T s)) = Inr tdPs \<and>
    s' = s\<lparr>pol_cosmphi_vector := pcv, pol_cosmphi_scalar := pcs,
              pol_sinmphi_vector := psv, pol_sinmphi_scalar := pss,
              tor_cosmphi_vector := tcv, tor_cosmphi_scalar := tcs,
              tor_sinmphi_vector := tsv, tor_sinmphi_scalar := tss,
              coslambda_vector := amap cos (amap (\<lambda>x. x * pi / 180) (col (fst (vectorgrid s)))),
              pol_P_vector := pPv, pol_dP_vector := pdPv,
              pol_P_scalar := pPs, pol_dP_scalar := pdPs,
              tor_P_vector := tPv, tor_dP_vector := tdPv,
              tor_P_scalar := tPs, tor_dP_scalar := tdPs\<rparr>"
  using assms unfolding calculate_matrices_def Let_def
  by (simp add: bnd_Inr_iff case_prod_beta) blast

subsection \<open>The grids\<close>

lemma length_bool_index:
  "bool_index xs keep = Inr ys \<Longrightarrow> length ys = length (filter id keep)"
proof -
  have "length keep = length xs \<Longrightarrow> length (filter snd (zip xs keep)) = length (filter id keep)"
    for xs :: "real list" and keep
    by (induction xs keep rule: list_induct2') auto
  then show "bool_index xs keep = Inr ys \<Longrightarrow> length ys = length (filter id keep)"
    by (auto simp: bool_index_def split: if_splits)
qed

lemma mirror_append:
  "length a = length b \<Longrightarrow>
   \<exists>k. length (a @ map uminus a) = 2 * k \<and> length (b @ b) = 2 * k \<and>
       (\<forall>i<k. (a @ map uminus a) ! (k + i) = - (a @ map uminus a) ! i \<and>
              (b @ b) ! (k + i) = (b @ b) ! i)"
  for a b :: "real list"
  by (rule exI[of _ "length a"]) (simp add: nth_append)

lemma length_concat_replicate: "length (concat (replicate n xs)) = n * length xs"
  by (induction n) auto

lemma length_concat_map_replicate:
  "length (concat (map (\<lambda>y. replicate m y) ys)) = length ys * m"
  by (induction ys) auto

lemma vectorgrid_mirrored:
  assumes "get_vectorgrid eag s = Inr g"
  shows "\<exists>k. length (fst g) = 2 * k \<and> length (snd g) = 2 * k \<and>
       (\<forall>i<k. fst g ! (k + i) = - fst g ! i \<and> snd g ! (k + i) = snd g ! i)"
proof -
  from assms obtain a b keep xs ys where g: "g = (a @ map uminus a, b @ b)"
    and a: "bool_index xs keep = Inr a" and b: "bool_index ys keep = Inr b"
    by (auto simp: get_vectorgrid_def bnd_def Let_def split: prod.splits sum.splits if_splits)
  from a b have "length a = length b" by (simp add: length_bool_index)
  from mirror_append[OF this] show ?thesis by (simp add: g)
qed

lemma scalargrid_mirrored:
  assumes "get_scalargrid s res = Inr (s', g)"
  shows "\<exists>k. length (fst g) = 2 * k \<and> length (snd g) = 2 * k \<and>
       (\<forall>i<k. fst g ! (k + i) = - fst g ! i \<and> snd g ! (k + i) = snd g ! i)"
proof -
  from assms obtain lats lons where
    g: "g = (concat (replicate (length lons) lats) @
             map uminus (concat (replicate (length lons) lats)),
         map (\<lambda>t. t + 12) (map (\<lambda>t. t * 12 / 180)
           (concat (map (\<lambda>y. replicate (length lats) y) lons) @
            concat (map (\<lambda>y. replicate (length lats) y) lons))))"
    by (auto simp: get_scalargrid_def bnd_def Let_def split: sum.splits)
  let ?a = "concat (replicate (length lons) lats)"
  let ?b = "map (\<lambda>t. t + 12) (map (\<lambda>t. t * 12 / 180)
              (concat (map (\<lambda>y. replicate (length lats) y) lons)))"
  have "length ?a = length ?b"
    by (simp add: length_concat_replicate length_concat_map_replicate)
  from mirror_append[OF this] show ?thesis by (simp add: g)
qed

subsection \<open>The cache and the constructor\<close>

lemma calculate_matrices_frame:
  assumes "calculate_matrices lg s = Inr s'"
  shows "tor_c s' = tor_c s" "tor_s s' = tor_s s" "pol_c s' = pol_c s" "pol_s s' = pol_s s"
    "pol_keys s' = pol_keys s" "tor_keys s' = tor_keys s" "height s' = height s"
    "dr s' = dr s" "M0 s' = M0 s" "minlat s' = minlat s" "maxlat s' = maxlat s"
    "keys_P s' = keys_P s" "keys_T s' = keys_T s" "m_P s' = m_P s" "m_T s' = m_T s"
    "n_P s' = n_P s" "n_T s' = n_T s" "N s' = N s" "M s' = M s"
    "vectorgrid s' = vectorgrid s" "scalargrid s' = scalargrid s"
    "scalar_resolution s' = scalar_resolution s"
  using calculate_matrices_D[OF assms] by auto

lemma calculate_matrices_idem:
  assumes "calculate_matrices lg s = Inr s'"
  shows "calculate_matrices lg s' = Inr s'"
proof -
  from calculate_matrices_D[OF assms] obtain pcv pcs psv pss tcv tcs tsv tss pPv pdPv pPs pdPs tPv tdPv tPs tdPs
    where *: "azimuth cos (m_P s) (snd (vectorgrid s)) (pi / 12) = Inr pcv"
    "azimuth cos (m_P s) (snd (scalargrid s)) (pi / 12) = Inr pcs"
    "azimuth sin (m_P s) (snd (vectorgrid s)) (pi / 12) = Inr psv"
    "azimuth sin (m_P s) (snd (scalargrid s)) (pi / 12) = Inr pss"
    "azimuth cos (m_T s) (snd (vectorgrid s)) (pi / 12) = Inr tcv"
    "azimuth cos (m_T s) (snd (scalargrid s)) (pi / 12) = Inr tcs"
    "azimuth sin (m_T s) (snd (vectorgrid s)) (pi / 12) = Inr tsv"
    "azimuth sin (m_T s) (snd (scalargrid s)) (pi / 12) = Inr tss"
    "basis (fst (lg (N s) (M s) (map (\<lambda>x. 90 - x) (fst (vectorgrid s))))) (keys_P s) = Inr pPv"
    "amap2 uminus (basis (snd (lg (N s) (M s) (map (\<lambda>x. 90 - x) (fst (vectorgrid s))))) (keys_P s)) = Inr pdPv"
    "basis (fst (lg (N s) (M s) (map (\<lambda>x. 90 - x) (fst (scalargrid s))))) (keys_P s) = Inr pPs"
    "amap2 uminus (basis (snd (lg (N s) (M s) (map (\<lambda>x. 90 - x) (fst (scalargrid s))))) (keys_P s)) = Inr pdPs"
    "basis (fst (lg (N s) (M s) (map (\<lambda>x. 90 - x) (fst (vectorgrid s))))) (keys_T s) = Inr tPv"
    "amap2 uminus (basis (snd (lg (N s) (M s) (map (\<lambda>x. 90 - x) (fst (vectorgrid s))))) (keys_T s)) = Inr tdPv"
    "basis (fst (lg (N s) (M s) (map (\<lambda>x. 90 - x) (fst (scalargrid s))))) (keys_T s) = Inr tPs"
    "amap2 uminus (basis (snd (lg (N s) (M s) (map (\<lambda>x. 90 - x) (fst (scalargrid s))))) (keys_T s)) = Inr tdPs"
    and s': "s' = s\<lparr>pol_cosmphi_vector := pcv, pol_cosmphi_scalar := pcs,
              pol_sinmphi_vector := psv, pol_sinmphi_scalar := pss,
              tor_cosmphi_vector := tcv, tor_cosmphi_scalar := tcs,
              tor_sinmphi_vector := tsv, tor_sinmphi_scalar := tss,
              coslambda_vector := amap cos (amap (\<lambda>x. x * pi / 180) (col (fst (vectorgrid s)))),
              pol_P_vector := pPv, pol_dP_vector := pdPv,
              pol_P_scalar := pPs, pol_dP_scalar := pdPs,
              tor_P_vector := tPv, tor_dP_vector := tdPv,
              tor_P_scalar := tPs, tor_dP_scalar := tdPs\<rparr>"
    by blast
  show ?thesis
    unfolding calculate_matrices_def Let_def
    by (simp add: s' * case_prod_beta)
qed

text \<open>What a fresh cache holds.\<close>

lemma engine_ok_cache:
  assumes "engine_ok lg s"
  shows "azimuth cos (m_P s) (snd (vectorgrid s)) (pi / 12) = Inr (pol_cosmphi_vector s)"
    "azimuth cos (m_P s) (snd (scalargrid s)) (pi / 12) = Inr (pol_cosmphi_scalar s)"
    "azimuth sin (m_P s) (snd (vectorgrid s)) (pi / 12) = Inr (pol_sinmphi_vector s)"
    "azimuth sin (m_P s) (snd (scalargrid s)) (pi / 12) = Inr (pol_sinmphi_scalar s)"
    "azimuth cos (m_T s) (snd (vectorgrid s)) (pi / 12) = Inr (tor_cosmphi_vector s)"
    "azimuth cos (m_T s) (snd (scalargrid s)) (pi / 12) = Inr (tor_cosmphi_scalar s)"
    "azimuth sin (m_T s) (snd (vectorgrid s)) (pi / 12) = Inr (tor_sinmphi_vector s)"
    "azimuth sin (m_T s) (snd (scalargrid s)) (pi / 12) = Inr (tor_sinmphi_scalar s)"
    "basis (fst (lg (N s) (M s) (map (\<lambda>x. 90 - x) (fst (vectorgrid s))))) (keys_P s) = Inr (pol_P_vector s)"
    "amap2 uminus (basis (snd (lg (N s) (M s) (map (\<lambda>x. 90 - x) (fst (vectorgrid s))))) (keys_P s)) = Inr (pol_dP_vector s)"
    "basis (fst (lg (N s) (M s) (map (\<lambda>x. 90 - x) (fst (scalargrid s))))) (keys_P s) = Inr (pol_P_scalar s)"
    "amap2 uminus (basis (snd (lg (N s) (M s) (map (\<lambda>x. 90 - x) (fst (scalargrid s))))) (keys_P s)) = Inr (pol_dP_scalar s)"
    "basis (fst (lg (N s) (M s) (map (\<lambda>x. 90 - x) (fst (vectorgrid s))))) (keys_T s) = Inr (tor_P_vector s)"
    "amap2 uminus (basis (snd (lg (N s) (M s) (map (\<lambda>x. 90 - x) (fst (vectorgrid s))))) (keys_T s)) = Inr (tor_dP_vector s)"
    "basis (fst (lg (N s) (M s) (map (\<lambda>x. 90 - x) (fst (scalargrid s))))) (keys_T s) = Inr (tor_P_scalar s)"
    "amap2 uminus (basis (snd (lg (N s) (M s) (map (\<lambda>x. 90 - x) (fst (scalargrid s))))) (keys_T s)) = Inr (tor_dP_scalar s)"
    "coslambda_vector s = amap cos (amap (\<lambda>x. x * pi / 180) (col (fst (vectorgrid s))))"
proof -
  from assms have c: "calculate_matrices lg s = Inr s" by (simp add: engine_ok_def)
  from calculate_matrices_D[OF c] obtain pcv pcs psv pss tcv tcs tsv tss pPv pdPv pPs pdPs tPv tdPv tPs tdPs
    where *: "azimuth cos (m_P s) (snd (vectorgrid s)) (pi / 12) = Inr pcv"
    "azimuth cos (m_P s) (snd (scalargrid s)) (pi / 12) = Inr pcs"
    "azimuth sin (m_P s) (snd (vectorgrid s)) (pi / 12) = Inr psv"
    "azimuth sin (m_P s) (snd (scalargrid s)) (pi / 12) = Inr pss"
    "azimuth cos (m_T s) (snd (vectorgrid s)) (pi / 12) = Inr tcv"
    "azimuth cos (m_T s) (snd (scalargrid s)) (pi / 12) = Inr tcs"
    "azimuth sin (m_T s) (snd (vectorgrid s)) (pi / 12) = Inr tsv"
    "azimuth sin (m_T s) (snd (scalargrid s)) (pi / 12) = Inr tss"
    "basis (fst (lg (N s) (M s) (map (\<lambda>x. 90 - x) (fst (vectorgrid s))))) (keys_P s) = Inr pPv"
    "amap2 uminus (basis (snd (lg (N s) (M s) (map (\<lambda>x. 90 - x) (fst (vectorgrid s))))) (keys_P s)) = Inr pdPv"
    "basis (fst (lg (N s) (M s) (map (\<lambda>x. 90 - x) (fst (scalargrid s))))) (keys_P s) = Inr pPs"
    "amap2 uminus (basis (snd (lg (N s) (M s) (map (\<lambda>x. 90 - x) (fst (scalargrid s))))) (keys_P s)) = Inr pdPs"
    "basis (fst (lg (N s) (M s) (map (\<lambda>x. 90 - x) (fst (vectorgrid s))))) (keys_T s) = Inr tPv"
    "amap2 uminus (basis (snd (lg (N s) (M s) (map (\<lambda>x. 90 - x) (fst (vectorgrid s))))) (keys_T s)) = Inr tdPv"
    "basis (fst (lg (N s) (M s) (map (\<lambda>x. 90 - x) (fst (scalargrid s))))) (keys_T s) = Inr tPs"
    "amap2 uminus (basis (snd (lg (N s) (M s) (map (\<lambda>x. 90 - x) (fst (scalargrid s))))) (keys_T s)) = Inr tdPs"
    and s': "s = s\<lparr>pol_cosmphi_vector := pcv, pol_cosmphi_scalar := pcs,
              pol_sinmphi_vector := psv, pol_sinmphi_scalar := pss,
              tor_cosmphi_vector := tcv, tor_cosmphi_scalar := tcs,
              tor_sinmphi_vector := tsv, tor_sinmphi_scalar := tss,
              coslambda_vector := amap cos (amap (\<lambda>x. x * pi / 180) (col (fst (vectorgrid s)))),
              pol_P_vector := pPv, pol_dP_vector := pdPv,
              pol_P_scalar := pPs, pol_dP_scalar := pdPs,
              tor_P_vector := tPv, tor_dP_vector := tdPv,
              tor_P_scalar := tPs, tor_dP_scalar := tdPs\<rparr>"
    by blast
  have f: "pol_cosmphi_vector s = pcv" "pol_cosmphi_scalar s = pcs"
    "pol_sinmphi_vector s = psv" "pol_sinmphi_scalar s = pss"
    "tor_cosmphi_vector s = tcv" "tor_cosmphi_scalar s = tcs"
    "tor_sinmphi_vector s = tsv" "tor_sinmphi_scalar s = tss"
    "pol_P_vector s = pPv" "pol_dP_vector s = pdPv" "pol_P_scalar s = pPs" "pol_dP_scalar s = pdPs"
    "tor_P_vector s = tPv" "tor_dP_vector s = tdPv" "tor_P_scalar s = tPs" "tor_dP_scalar s = tdPs"
    "coslambda_vector s = amap cos (amap (\<lambda>x. x * pi / 180) (col (fst (vectorgrid s))))"
    by (subst s', simp)+
  from * f show
    "azimuth cos (m_P s) (snd (vectorgrid s)) (pi / 12) = Inr (pol_cosmphi_vector s)"
    "azimuth cos (m_P s) (snd (scalargrid s)) (pi / 12) = Inr (pol_cosmphi_scalar s)"
    "azimuth sin (m_P s) (snd (vectorgrid s)) (pi / 12) = Inr (pol_sinmphi_vector s)"
    "azimuth sin (m_P s) (snd (scalargrid s)) (pi / 12) = Inr (pol_sinmphi_scalar s)"
    "azimuth cos (m_T s) (snd (vectorgrid s)) (pi / 12) = Inr (tor_cosmphi_vector s)"
    "azimuth cos (m_T s) (snd (scalargrid s)) (pi / 12) = Inr (tor_cosmphi_scalar s)"
    "azimuth sin (m_T s) (snd (vectorgrid s)) (pi / 12) = Inr (tor_sinmphi_vector s)"
    "azimuth sin (m_T s) (snd (scalargrid s)) (pi / 12) = Inr (tor_sinmphi_scalar s)"
    "basis (fst (lg (N s) (M s) (map (\<lambda>x. 90 - x) (fst (vectorgrid s))))) (keys_P s) = Inr (pol_P_vector s)"
    "amap2 uminus (basis (snd (lg (N s) (M s) (map (\<lambda>x. 90 - x) (fst (vectorgrid s))))) (keys_P s)) = Inr (pol_dP_vector s)"
    "basis (fst (lg (N s) (M s) (map (\<lambda>x. 90 - x) (fst (scalargrid s))))) (keys_P s) = Inr (pol_P_scalar s)"
    "amap2 uminus (basis (snd (lg (N s) (M s) (map (\<lambda>x. 90 - x) (fst (scalargrid s))))) (keys_P s)) = Inr (pol_dP_scalar s)"
    "basis (fst (lg (N s) (M s) (map (\<lambda>x. 90 - x) (fst (vectorgrid s))))) (keys_T s) = Inr (tor_P_vector s)"
    "amap2 uminus (basis (snd (lg (N s) (M s) (map (\<lambda>x. 90 - x) (fst (vectorgrid s))))) (keys_T s)) = Inr (tor_dP_vector s)"
    "basis (fst (lg (N s) (M s) (map (\<lambda>x. 90 - x) (fst (scalargrid s))))) (keys_T s) = Inr (tor_P_scalar s)"
    "amap2 uminus (basis (snd (lg (N s) (M s) (map (\<lambda>x. 90 - x) (fst (scalargrid s))))) (keys_T s)) = Inr (tor_dP_scalar s)"
    "coslambda_vector s = amap cos (amap (\<lambda>x. x * pi / 180) (col (fst (vectorgrid s))))"
    by simp_all
qed

lemma get_scalargrid_D:
  assumes "get_scalargrid s res = Inr (s', g)"
  shows "s' = s\<lparr>scalar_resolution := res\<rparr>"
  using assms by (auto simp: get_scalargrid_def bnd_Inr_iff Let_def)

lemma init_D:
  assumes "init gmv eag lg v By Bz tilt F107 mn mx h d m0 res = Inr s"
  shows "engine_ok lg s"
    and "gmv v By Bz tilt F107 = (tor_c s, tor_s s, pol_c s, pol_s s, pol_keys s, tor_keys s)"
    and "keys_P s = pol_keys s" and "keys_T s = tor_keys s"
    and "keys_P s \<noteq> []" and "keys_T s \<noteq> []"
    and "highest (tor_keys s) (tor_keys s) = Inr (N s, M s)"
    and "length (pol_s s) = length (pol_c s)"
    and "minlat s = mn" and "maxlat s = mx" and "height s = h" and "dr s = d" and "M0 s = m0"
    and "scalar_resolution s = res"
    and "\<exists>s0. minlat s0 = mn \<and> maxlat s0 = mx \<and> dr s0 = d \<and> M0 s0 = m0 \<and>
           get_vectorgrid eag s0 = Inr (vectorgrid s)"
    and "\<exists>s1 s2. minlat s1 = mn \<and> maxlat s1 = mx \<and>
           get_scalargrid s1 res = Inr (s2, scalargrid s)"
proof -
  obtain tc ts pc ps pk tk where g: "gmv v By Bz tilt F107 = (tc, ts, pc, ps, pk, tk)"
    by (metis prod_cases6)
  define s0 where "s0 = \<lparr>tor_c = tc, tor_s = ts, pol_c = pc, pol_s = ps,
                        pol_keys = pk, tor_keys = tk,
                        height = h, dr = d, M0 = m0,
                        minlat = mn, maxlat = mx,
                        keys_P = pk, keys_T = tk,
                        m_P = map snd pk, m_T = map snd tk, n_P = map fst pk, n_T = map fst tk,
                        N = fst (Max (set (map fst (tk @ tk))), Max (set (map snd (tk @ tk)))),
                        M = snd (Max (set (map fst (tk @ tk))), Max (set (map snd (tk @ tk)))),
                        vectorgrid = ([], []), scalargrid = ([], []),
                        scalar_resolution = 0,
                        pol_cosmphi_vector = unset, pol_cosmphi_scalar = unset,
                        pol_sinmphi_vector = unset, pol_sinmphi_scalar = unset,
                        tor_cosmphi_vector = unset, tor_cosmphi_scalar = unset,
                        tor_sinmphi_vector = unset, tor_sinmphi_scalar = unset,
                        coslambda_vector = unset,
                        pol_P_vector = unset, pol_dP_vector = unset,
                        pol_P_scalar = unset, pol_dP_scalar = unset,
                        tor_P_vector = unset, tor_dP_vector = unset,
                        tor_P_scalar = unset, tor_dP_scalar = unset\<rparr>"
  from assms g have len: "length ps = length pc" and pk: "pk \<noteq> []" and tk: "tk \<noteq> []"
    by (auto simp: init_def key_row_def bnd_Inr_iff split: if_splits)
  from assms g len pk tk obtain vg r where
    vg: "get_vectorgrid eag s0 = Inr vg"
    and sg: "get_scalargrid (s0\<lparr>vectorgrid := vg\<rparr>) res = Inr r"
    and cm: "calculate_matrices lg ((fst r)\<lparr>scalargrid := snd r\<rparr>) = Inr s"
    by (auto simp: init_def key_row_def highest_def bnd_Inr_iff Let_def s0_def)
  from sg have r: "fst r = s0\<lparr>vectorgrid := vg, scalar_resolution := res\<rparr>"
    using get_scalargrid_D[of "s0\<lparr>vectorgrid := vg\<rparr>" res "fst r" "snd r"] by simp
  let ?s3 = "(fst r)\<lparr>scalargrid := snd r\<rparr>"
  note fr = calculate_matrices_frame[OF cm]
  have vgs: "vectorgrid s = vg" and sgs: "scalargrid s = snd r"
    using fr by (simp_all add: r)
  from vectorgrid_mirrored[OF vg] have lv: "length (fst vg) = length (snd vg)" by auto
  from scalargrid_mirrored[of "s0\<lparr>vectorgrid := vg\<rparr>" res "fst r" "snd r"] sg
  have ls: "length (fst (snd r)) = length (snd (snd r))" by auto
  show "engine_ok lg s"
    unfolding engine_ok_def using calculate_matrices_idem[OF cm] fr lv ls pk tk
    by (simp add: r s0_def)
  show "gmv v By Bz tilt F107 = (tor_c s, tor_s s, pol_c s, pol_s s, pol_keys s, tor_keys s)"
    using fr g by (simp add: r s0_def)
  show "keys_P s = pol_keys s" "keys_T s = tor_keys s" "keys_P s \<noteq> []" "keys_T s \<noteq> []"
    "length (pol_s s) = length (pol_c s)"
    "minlat s = mn" "maxlat s = mx" "height s = h" "dr s = d" "M0 s = m0"
    "scalar_resolution s = res"
    using fr pk tk len by (simp_all add: r s0_def)
  show "highest (tor_keys s) (tor_keys s) = Inr (N s, M s)"
    using fr tk by (simp add: r s0_def highest_def)
  have "minlat s0 = mn \<and> maxlat s0 = mx \<and> dr s0 = d \<and> M0 s0 = m0" by (simp add: s0_def)
  with vg vgs show "\<exists>s0. minlat s0 = mn \<and> maxlat s0 = mx \<and> dr s0 = d \<and> M0 s0 = m0 \<and>
           get_vectorgrid eag s0 = Inr (vectorgrid s)" by blast
  have "minlat (s0\<lparr>vectorgrid := vg\<rparr>) = mn \<and> maxlat (s0\<lparr>vectorgrid := vg\<rparr>) = mx"
    by (simp add: s0_def)
  moreover have "get_scalargrid (s0\<lparr>vectorgrid := vg\<rparr>) res = Inr (fst r, scalargrid s)"
    using sg sgs by simp
  ultimately show "\<exists>s1 s2. minlat s1 = mn \<and> maxlat s1 = mx \<and>
           get_scalargrid s1 res = Inr (s2, scalargrid s)" by blast
qed

lemma calculate_matrices_coefficients:
  "calculate_matrices lg (s\<lparr>tor_c := a, tor_s := b, pol_c := c, pol_s := e,
                              pol_keys := f, tor_keys := g\<rparr>) =
   bnd (calculate_matrices lg s)
     (\<lambda>t. Inr (t\<lparr>tor_c := a, tor_s := b, pol_c := c, pol_s := e,
                  pol_keys := f, tor_keys := g\<rparr>))"
  unfolding calculate_matrices_def Let_def
  by (simp add: case_prod_beta bnd_def split: sum.splits)

lemma update_model_engine_ok:
  "engine_ok lg s \<Longrightarrow> engine_ok lg (update_model gmv s v By Bz tilt F107)"
  unfolding engine_ok_def update_model_def
  by (simp add: case_prod_beta calculate_matrices_coefficients)

subsection \<open>Custom coordinates at the vector grid\<close>

lemma azimuth_custom:
  "amap2 f (amap2 (\<lambda>x. x / 12) (amap2 (\<lambda>x. x * pi) (ew (*) (rowi ms) (col mlt)))) =
   azimuth f ms mlt (pi / 12)"
  by (simp add: azimuth_def amap2_amap2)

lemma wf_stack_keys: "stack_keys cs = Inr A \<Longrightarrow> wf A"
  by (auto simp: stack_keys_def split: list.splits if_splits) (auto simp: wf_def)

lemma wf_basis: "basis tab ks = Inr A \<Longrightarrow> wf A"
  by (auto simp: basis_def bnd_Inr_iff wf_stack_keys)

lemma wf_amap2_basis: "amap2 f (basis tab ks) = Inr A \<Longrightarrow> wf A"
  by (cases "basis tab ks") (auto simp: wf_basis)

lemma df_custom_cached:
  assumes ok: "engine_ok lg s" and R: "wf R"
  shows "df_custom lg s R (fst (vectorgrid s)) (snd (vectorgrid s)) = df_cached s R"
proof -
  note c = engine_ok_cache[OF ok]
  have neg: "ew2 (+) (amap2 uminus (dot2 X Y)) (dot2 X' Y') =
             amap2 uminus (ew2 (-) (dot2 X Y) (dot2 X' Y'))" for X Y X' Y'
    by (simp add: ew2_amap2_left amap2_ew2)
  show ?thesis
    unfolding df_custom_def df_cached_def
    by (simp add: case_prod_beta azimuth_custom c(1-16) Let_def neg flip: c(17))
qed

lemma wf_df_rtor [simp]: "wf (df_rtor s q)"
  by (simp add: df_rtor_def)

lemma cf_custom_cached:
  assumes ok: "engine_ok lg s"
  shows "cf_custom lg s (fst (vectorgrid s)) (snd (vectorgrid s)) = cf_cached s"
proof -
  note c = engine_ok_cache[OF ok]
  have wP: "wf (tor_P_vector s)" using c(13) by (rule wf_basis)
  have wdP: "wf (tor_dP_vector s)" using c(14) by (rule wf_amap2_basis)
  have m1: "ew (*) (amap (\<lambda>x. k * x) A) B = amap2 (\<lambda>x. k * x) (ew (*) A B)" if "wf A" for k A B
    using that by (simp add: ew_amap_left amap2_ew mult.assoc)
  have m2: "ew2 (*) (amap2 (\<lambda>x. k * x) X) Y = amap2 (\<lambda>x. k * x) (ew2 (*) X Y)" if "wfE X" for k X Y
    using that by (simp add: ew2_amap2_left amap2_ew2 mult.assoc)
  have sub: "ew2 (-) (amap2 (\<lambda>x. k * x) X) (amap2 (\<lambda>x. k * x) Y) = amap2 (\<lambda>x. k * x) (ew2 (-) X Y)"
    if "wfE X" "wfE Y" for k X Y
    using that by (simp add: ew2_amap2_left ew2_amap2_right amap2_ew2 right_diff_distrib)
  have add: "ew2 (+) (amap2 (\<lambda>x. k * x) X) (amap2 (\<lambda>x. k * x) Y) = amap2 (\<lambda>x. k * x) (ew2 (+) X Y)"
    if "wfE X" "wfE Y" for k X Y
    using that by (simp add: ew2_amap2_left ew2_amap2_right amap2_ew2 distrib_left)
  show ?thesis
    unfolding cf_custom_def cf_cached_def
    apply (simp add: case_prod_beta azimuth_custom c(1-16) Let_def flip: c(17))
    apply (simp add: m1 wP wdP m2 dot2_amap2_left sub add)
    done
qed

subsection \<open>Shapes\<close>

lemma bdim_same [simp]: "bdim n n = Inr n"
  and bdim_1_left [simp]: "bdim 1 n = Inr n"
  and bdim_Suc0_left [simp]: "bdim (Suc 0) n = Inr n"
  and bdim_1_right [simp]: "bdim n 1 = Inr n"
  and bdim_Suc0_right [simp]: "bdim n (Suc 0) = Inr n"
  by (auto simp: bdim_def)

lemma shE_Inr [simp]: "shE (Inr A) = Some (nrows A, ncols A)"
  and shE_Inl [simp]: "shE (Inl e) = None"
  by (simp_all add: shE_def)

lemma shE_Some_iff: "shE X = Some sh \<longleftrightarrow> (\<exists>A. X = Inr A \<and> sh = (nrows A, ncols A))"
  by (cases X) auto

lemma shE_None_iff: "shE X = None \<longleftrightarrow> (\<exists>e. X = Inl e)"
  by (cases X) auto

lemma shE_ew: "shE (ew f A B) = bsh (Some (nrows A, ncols A)) (Some (nrows B, ncols B))"
  by (auto simp: ew_def bsh_def bnd_def split: sum.splits)

lemma shE_ew2 [simp]: "shE (ew2 f X Y) = bsh (shE X) (shE Y)"
  by (cases X; cases Y) (simp_all add: shE_ew bsh_def)

lemma shE_dot: "shE (dot A B) = dsh (Some (nrows A, ncols A)) (Some (nrows B, ncols B))"
  by (simp add: dot_def dsh_def)

lemma shE_dot2 [simp]: "shE (dot2 X Y) = dsh (shE X) (shE Y)"
  by (cases X; cases Y) (simp_all add: shE_dot dsh_def)

lemma shE_hstack: "shE (hstack A B) = hsh (Some (nrows A, ncols A)) (Some (nrows B, ncols B))"
  by (simp add: hstack_def hsh_def)

lemma shE_hstack2 [simp]: "shE (hstack2 X Y) = hsh (shE X) (shE Y)"
  by (cases X; cases Y) (simp_all add: shE_hstack hsh_def hstack2_def)

lemma shE_amap2 [simp]: "shE (amap2 f X) = shE X"
  by (cases X) simp_all

lemma bsh_Some [simp]:
  "bsh (Some (r1, c1)) (Some (r2, c2)) =
     (case bdim r1 r2 of Inl e \<Rightarrow> None | Inr r \<Rightarrow>
      case bdim c1 c2 of Inl e \<Rightarrow> None | Inr c \<Rightarrow> Some (r, c))"
  by (simp add: bsh_def split: sum.splits)

lemma bsh_None [simp]: "bsh None y = None" "bsh x None = None"
  by (simp_all add: bsh_def split: option.splits)

lemma dsh_Some [simp]:
  "dsh (Some (r1, c1)) (Some (r2, c2)) = (if c1 = r2 then Some (r1, c2) else None)"
  by (simp add: dsh_def)

lemma dsh_None [simp]: "dsh None y = None" "dsh x None = None"
  by (simp_all add: dsh_def split: option.splits)

lemma hsh_Some [simp]:
  "hsh (Some (r1, c1)) (Some (r2, c2)) = (if r1 = r2 then Some (r1, c1 + c2) else None)"
  by (simp add: hsh_def)

lemma hsh_None [simp]: "hsh None y = None" "hsh x None = None"
  by (simp_all add: hsh_def split: option.splits)

lemma nrows_col [simp]: "nrows (col xs) = length xs" and ncols_col [simp]: "ncols (col xs) = 1"
  by (simp_all add: col_def)

lemma nrows_row [simp]: "nrows (row xs) = 1" and ncols_row [simp]: "ncols (row xs) = length xs"
  by (simp_all add: row_def)

lemma nrows_rowi [simp]: "nrows (rowi xs) = 1" and ncols_rowi [simp]: "ncols (rowi xs) = length xs"
  by (simp_all add: rowi_def)

lemma azimuth_shape:
  "azimuth f ms mlt c = Inr C \<Longrightarrow> nrows C = length mlt \<and> ncols C = length ms"
  by (auto simp: azimuth_def ew_def amap2_def bnd_Inr_iff)

lemma lookup_keys_length: "lookup_keys tab ks = Inr cs \<Longrightarrow> length cs = length ks"
  by (induction ks arbitrary: cs) (auto simp: bnd_Inr_iff split: option.splits)

lemma lookup_keys_aligned:
  assumes "lookup_keys tab ks = Inr cs" and "\<And>k c. tab k = Some c \<Longrightarrow> length c = n"
  shows "list_all (\<lambda>c. length c = n) cs"
  using assms by (induction ks arbitrary: cs) (auto simp: bnd_Inr_iff split: option.splits)

lemma basis_shape:
  assumes "basis tab ks = Inr P" and "\<And>k c. tab k = Some c \<Longrightarrow> length c = n" and "ks \<noteq> []"
  shows "nrows P = (if length ks = 1 then 1 else n)"
    and "ncols P = (if length ks = 1 then n else length ks)"
proof -
  from assms(1) obtain cs where cs: "lookup_keys tab ks = Inr cs" and st: "stack_keys cs = Inr P"
    by (auto simp: basis_def bnd_Inr_iff)
  from lookup_keys_length[OF cs] have l: "length cs = length ks" .
  from lookup_keys_aligned[OF cs assms(2)] have a: "list_all (\<lambda>c. length c = n) cs" .
  from l assms(3) obtain c0 cs' where c: "cs = c0 # cs'" by (cases cs) auto
  with a have n: "length c0 = n" by simp
  from st c n l show "nrows P = (if length ks = 1 then 1 else n)"
    and "ncols P = (if length ks = 1 then n else length ks)"
    by (auto simp: stack_keys_def split: if_splits)
qed

lemma aligned_fst: "aligned lg \<Longrightarrow> fst (lg n m th) k = Some c \<Longrightarrow> length c = length th"
  and aligned_snd: "aligned lg \<Longrightarrow> snd (lg n m th) k = Some c \<Longrightarrow> length c = length th"
  unfolding aligned_def by blast+

lemma length_flatten_col: "wf A \<Longrightarrow> ncols A = 1 \<Longrightarrow> length (flatten A) = nrows A"
proof -
  assume "wf A" "ncols A = 1"
  then have "map length (rows A) = replicate (nrows A) 1"
    by (auto simp: wf_def list_all_iff intro!: replicate_eqI)
  then show ?thesis
    by (simp add: flatten_def length_concat sum_list_replicate)
qed

subsection \<open>Output lengths of the custom path\<close>

lemma bnd_pair_flattenE:
  assumes "bnd X (\<lambda>e. bnd Y (\<lambda>n. Inr (flatten e, flatten n))) = Inr (de, dn)"
  obtains east north where "X = Inr east" "Y = Inr north" "de = flatten east" "dn = flatten north"
  using assms by (auto simp: bnd_Inr_iff)

lemma Inr_wfE: "X = Inr A \<Longrightarrow> wfE X \<Longrightarrow> wf A"
  by simp

lemma azimuth_Inr:
  "\<exists>C. azimuth f ms mlt c = Inr C \<and> nrows C = length mlt \<and> ncols C = length ms \<and> wf C"
  by (simp add: azimuth_def ew_def)

lemma bdim_absorb: "bdim a b = Inr r \<Longrightarrow> bdim r a = Inr r"
  by (auto simp: bdim_def split: if_splits)

lemma df_custom_lengths:
  assumes al: "aligned lg" and mP: "m_P s = map snd (keys_P s)" and ne: "keys_P s \<noteq> []"
    and R: "nrows R = 1" "ncols R = length (keys_P s)"
    and pc: "length (pol_c s) = length (keys_P s)" and ps: "length (pol_s s) = length (keys_P s)"
    and res: "df_custom lg s R a b = Inr (de, dn)"
  shows "bdim (length a) (length b) = Inr (length de)" and "length dn = length de"
proof -
  let ?th = "map (\<lambda>x. 90 - x) a"
  from res obtain P where bP: "basis (fst (lg (N s) (M s) ?th)) (keys_P s) = Inr P"
    by (auto simp: df_custom_def case_prod_beta bnd_Inr_iff)
  from res obtain dP where bdP: "amap2 uminus (basis (snd (lg (N s) (M s) ?th)) (keys_P s)) = Inr dP"
    by (auto simp: df_custom_def case_prod_beta bnd_Inr_iff)
  then obtain dP0 where bdP0: "basis (snd (lg (N s) (M s) ?th)) (keys_P s) = Inr dP0"
    and dP: "dP = amap uminus dP0"
    by (cases "basis (snd (lg (N s) (M s) ?th)) (keys_P s)") auto
  have shP: "nrows P = (if length (keys_P s) = 1 then 1 else length a)"
    "ncols P = (if length (keys_P s) = 1 then length a else length (keys_P s))"
    using basis_shape[OF bP _ ne, of "length a"] aligned_fst[OF al] by auto
  have shdP: "nrows dP = (if length (keys_P s) = 1 then 1 else length a)"
    "ncols dP = (if length (keys_P s) = 1 then length a else length (keys_P s))"
    using basis_shape[OF bdP0 _ ne, of "length a"] aligned_snd[OF al] by (auto simp: dP)
  obtain C where C: "azimuth cos (m_P s) b (pi / 12) = Inr C" "nrows C = length b"
    "ncols C = length (keys_P s)"
    using azimuth_Inr[of cos "m_P s" b "pi / 12"] by (auto simp: mP)
  obtain S where S: "azimuth sin (m_P s) b (pi / 12) = Inr S" "nrows S = length b"
    "ncols S = length (keys_P s)"
    using azimuth_Inr[of sin "m_P s" b "pi / 12"] by (auto simp: mP)
  note h = res[unfolded df_custom_def, simplified case_prod_beta azimuth_custom bP bdP C S
      Let_def bnd_Inr prod.case]
  show "bdim (length a) (length b) = Inr (length de)" and "length dn = length de"
  proof (atomize (full), rule bnd_pair_flattenE[OF h], goal_cases)
    case (1 east north)
    have we: "wf east" using 1(1) by (rule Inr_wfE) simp
    have wn: "wf north" using 1(2) by (rule Inr_wfE) simp
    note se = 1(1)[THEN arg_cong[where f = shE]]
    note sn = 1(2)[THEN arg_cong[where f = shE]]
    show ?case
    proof (cases "length (keys_P s) = 1")
      case True
      with se sn R shP shdP C S pc ps mP
      have "length a = 1 \<and> length de = length b \<and> length dn = length b"
        using length_flatten_col[OF we] length_flatten_col[OF wn]
        by (auto simp: shE_ew 1(3,4) split: if_splits sum.splits)
      then show ?thesis by simp
    next
      case False
      with se sn R shP shdP C S pc ps mP show ?thesis
        using length_flatten_col[OF we] length_flatten_col[OF wn]
        by (auto simp: shE_ew 1(3,4) bdim_absorb split: if_splits sum.splits)
    qed
  qed
qed

subsection \<open>Output lengths of the curl-free custom path\<close>

lemma cf_custom_lengths:
  assumes al: "aligned lg" and mT: "m_T s = map snd (keys_T s)" and ne: "keys_T s \<noteq> []"
    and tc: "length (tor_c s) = length (keys_T s)" and ts: "length (tor_s s) = length (keys_T s)"
    and res: "cf_custom lg s a b = Inr (ce, cn)"
  shows "bdim (length a) (length b) = Inr (length ce)" and "length cn = length ce"
proof -
  let ?th = "map (\<lambda>x. 90 - x) a"
  from res obtain P where bP: "basis (fst (lg (N s) (M s) ?th)) (keys_T s) = Inr P"
    by (auto simp: cf_custom_def case_prod_beta bnd_Inr_iff)
  from res obtain dP where bdP: "amap2 uminus (basis (snd (lg (N s) (M s) ?th)) (keys_T s)) = Inr dP"
    by (auto simp: cf_custom_def case_prod_beta bnd_Inr_iff)
  then obtain dP0 where bdP0: "basis (snd (lg (N s) (M s) ?th)) (keys_T s) = Inr dP0"
    and dP: "dP = amap uminus dP0"
    by (cases "basis (snd (lg (N s) (M s) ?th)) (keys_T s)") auto
  have shP: "nrows P = (if length (keys_T s) = 1 then 1 else length a)"
    "ncols P = (if length (keys_T s) = 1 then length a else length (keys_T s))"
    using basis_shape[OF bP _ ne, of "length a"] aligned_fst[OF al] by auto
  have shdP: "nrows dP = (if length (keys_T s) = 1 then 1 else length a)"
    "ncols dP = (if length (keys_T s) = 1 then length a else length (keys_T s))"
    using basis_shape[OF bdP0 _ ne, of "length a"] aligned_snd[OF al] by (auto simp: dP)
  obtain C where C: "azimuth cos (m_T s) b (pi / 12) = Inr C" "nrows C = length b"
    "ncols C = length (keys_T s)"
    using azimuth_Inr[of cos "m_T s" b "pi / 12"] by (auto simp: mT)
  obtain S where S: "azimuth sin (m_T s) b (pi / 12) = Inr S" "nrows S = length b"
    "ncols S = length (keys_T s)"
    using azimuth_Inr[of sin "m_T s" b "pi / 12"] by (auto simp: mT)
  note h = res[unfolded cf_custom_def, simplified case_prod_beta azimuth_custom bP bdP C S
      Let_def bnd_Inr prod.case]
  show "bdim (length a) (length b) = Inr (length ce)" and "length cn = length ce"
  proof (atomize (full), rule bnd_pair_flattenE[OF h], goal_cases)
    case (1 east north)
    have we: "wf east" using 1(1) by (rule Inr_wfE) simp
    have wn: "wf north" using 1(2) by (rule Inr_wfE) simp
    note se = 1(1)[THEN arg_cong[where f = shE]]
    note sn = 1(2)[THEN arg_cong[where f = shE]]
    show ?case
    proof (cases "length (keys_T s) = 1")
      case True
      with se sn shP shdP C S tc ts mT
      have "length a = 1 \<and> length ce = length b \<and> length cn = length b"
        using length_flatten_col[OF we] length_flatten_col[OF wn]
        by (auto simp: shE_ew 1(3,4) split: if_splits sum.splits)
      then show ?thesis by simp
    next
      case False
      with se sn shP shdP C S tc ts mT show ?thesis
        using length_flatten_col[OF we] length_flatten_col[OF wn]
        by (auto simp: shE_ew 1(3,4) bdim_absorb split: if_splits sum.splits)
    qed
  qed
qed

lemma bnd_pair_flattenI:
  assumes "shE X = Some (r, 1)" and "shE Y = Some (r', 1)" and "wfE X" and "wfE Y"
  shows "\<exists>e n. bnd X (\<lambda>e. bnd Y (\<lambda>n. Inr (flatten e, flatten n))) = Inr (e, n) \<and>
               length e = r \<and> length n = r'"
  using assms by (auto simp: shE_Some_iff length_flatten_col)

subsection \<open>Shapes of the cached matrices\<close>

lemma engine_ok_D:
  assumes "engine_ok lg s"
  shows "m_P s = map snd (keys_P s)" "n_P s = map fst (keys_P s)"
    "m_T s = map snd (keys_T s)" "n_T s = map fst (keys_T s)"
    "length (snd (vectorgrid s)) = length (fst (vectorgrid s))"
    "length (snd (scalargrid s)) = length (fst (scalargrid s))"
    "keys_P s \<noteq> []" "keys_T s \<noteq> []"
  using assms by (auto simp: engine_ok_def)

lemma engine_azimuth_shapes:
  assumes ok: "engine_ok lg s"
  shows "nrows (pol_cosmphi_vector s) = length (fst (vectorgrid s))"
    "ncols (pol_cosmphi_vector s) = length (keys_P s)"
    "nrows (pol_sinmphi_vector s) = length (fst (vectorgrid s))"
    "ncols (pol_sinmphi_vector s) = length (keys_P s)"
    "nrows (tor_cosmphi_vector s) = length (fst (vectorgrid s))"
    "ncols (tor_cosmphi_vector s) = length (keys_T s)"
    "nrows (tor_sinmphi_vector s) = length (fst (vectorgrid s))"
    "ncols (tor_sinmphi_vector s) = length (keys_T s)"
    "nrows (pol_cosmphi_scalar s) = length (fst (scalargrid s))"
    "ncols (pol_cosmphi_scalar s) = length (keys_P s)"
    "nrows (pol_sinmphi_scalar s) = length (fst (scalargrid s))"
    "ncols (pol_sinmphi_scalar s) = length (keys_P s)"
    "nrows (tor_cosmphi_scalar s) = length (fst (scalargrid s))"
    "ncols (tor_cosmphi_scalar s) = length (keys_T s)"
    "nrows (tor_sinmphi_scalar s) = length (fst (scalargrid s))"
    "ncols (tor_sinmphi_scalar s) = length (keys_T s)"
    "nrows (coslambda_vector s) = length (fst (vectorgrid s))"
    "ncols (coslambda_vector s) = 1"
  using engine_ok_cache(1-8)[OF ok, THEN azimuth_shape] engine_ok_D[OF ok]
    engine_ok_cache(17)[OF ok]
  by simp_all

lemma amap2_basis_shape:
  assumes "amap2 f (basis tab ks) = Inr P" and "\<And>k c. tab k = Some c \<Longrightarrow> length c = n"
    and "ks \<noteq> []"
  shows "nrows P = (if length ks = 1 then 1 else n)"
    and "ncols P = (if length ks = 1 then n else length ks)"
proof -
  from assms(1) obtain P0 where b: "basis tab ks = Inr P0" and P: "P = amap f P0"
    by (cases "basis tab ks") auto
  from basis_shape[OF b assms(2,3)] P
  show "nrows P = (if length ks = 1 then 1 else n)"
    and "ncols P = (if length ks = 1 then n else length ks)"
    by simp_all
qed

lemma engine_legendre_shapes:
  assumes ok: "engine_ok lg s" and al: "aligned lg"
  shows "nrows (pol_P_vector s) = (if length (keys_P s) = 1 then 1 else length (fst (vectorgrid s)))"
    "ncols (pol_P_vector s) = (if length (keys_P s) = 1 then length (fst (vectorgrid s)) else length (keys_P s))"
    "nrows (pol_dP_vector s) = (if length (keys_P s) = 1 then 1 else length (fst (vectorgrid s)))"
    "ncols (pol_dP_vector s) = (if length (keys_P s) = 1 then length (fst (vectorgrid s)) else length (keys_P s))"
    "nrows (pol_P_scalar s) = (if length (keys_P s) = 1 then 1 else length (fst (scalargrid s)))"
    "ncols (pol_P_scalar s) = (if length (keys_P s) = 1 then length (fst (scalargrid s)) else length (keys_P s))"
    "nrows (pol_dP_scalar s) = (if length (keys_P s) = 1 then 1 else length (fst (scalargrid s)))"
    "ncols (pol_dP_scalar s) = (if length (keys_P s) = 1 then length (fst (scalargrid s)) else length (keys_P s))"
    "nrows (tor_P_vector s) = (if length (keys_T s) = 1 then 1 else length (fst (vectorgrid s)))"
    "ncols (tor_P_vector s) = (if length (keys_T s) = 1 then length (fst (vectorgrid s)) else length (keys_T s))"
    "nrows (tor_dP_vector s) = (if length (keys_T s) = 1 then 1 else length (fst (vectorgrid s)))"
    "ncols (tor_dP_vector s) = (if length (keys_T s) = 1 then length (fst (vectorgrid s)) else length (keys_T s))"
    "nrows (tor_P_scalar s) = (if length (keys_T s) = 1 then 1 else length (fst (scalargrid s)))"
    "ncols (tor_P_scalar s) = (if length (keys_T s) = 1 then length (fst (scalargrid s)) else length (keys_T s))"
    "nrows (tor_dP_scalar s) = (if length (keys_T s) = 1 then 1 else length (fst (scalargrid s)))"
    "ncols (tor_dP_scalar s) = (if length (keys_T s) = 1 then length (fst (scalargrid s)) else length (keys_T s))"
proof -
  note c = engine_ok_cache[OF ok] and d = engine_ok_D[OF ok]
  have av: "fst (lg n m (map (\<lambda>x. 90 - x) (fst (vectorgrid s)))) k = Some c \<Longrightarrow>
            length c = length (fst (vectorgrid s))" for n m k c
    using aligned_fst[OF al, of n m "map (\<lambda>x. 90 - x) (fst (vectorgrid s))" k c] by simp
  have bv: "snd (lg n m (map (\<lambda>x. 90 - x) (fst (vectorgrid s)))) k = Some c \<Longrightarrow>
            length c = length (fst (vectorgrid s))" for n m k c
    using aligned_snd[OF al, of n m "map (\<lambda>x. 90 - x) (fst (vectorgrid s))" k c] by simp
  have as: "fst (lg n m (map (\<lambda>x. 90 - x) (fst (scalargrid s)))) k = Some c \<Longrightarrow>
            length c = length (fst (scalargrid s))" for n m k c
    using aligned_fst[OF al, of n m "map (\<lambda>x. 90 - x) (fst (scalargrid s))" k c] by simp
  have bs: "snd (lg n m (map (\<lambda>x. 90 - x) (fst (scalargrid s)))) k = Some c \<Longrightarrow>
            length c = length (fst (scalargrid s))" for n m k c
    using aligned_snd[OF al, of n m "map (\<lambda>x. 90 - x) (fst (scalargrid s))" k c] by simp
  show "nrows (pol_P_vector s) = (if length (keys_P s) = 1 then 1 else length (fst (vectorgrid s)))"
    "ncols (pol_P_vector s) = (if length (keys_P s) = 1 then length (fst (vectorgrid s)) else length (keys_P s))"
    using basis_shape[OF c(9) av d(7)] by simp_all
  show "nrows (pol_dP_vector s) = (if length (keys_P s) = 1 then 1 else length (fst (vectorgrid s)))"
    "ncols (pol_dP_vector s) = (if length (keys_P s) = 1 then length (fst (vectorgrid s)) else length (keys_P s))"
    using amap2_basis_shape[OF c(10) bv d(7)] by simp_all
  show "nrows (pol_P_scalar s) = (if length (keys_P s) = 1 then 1 else length (fst (scalargrid s)))"
    "ncols (pol_P_scalar s) = (if length (keys_P s) = 1 then length (fst (scalargrid s)) else length (keys_P s))"
    using basis_shape[OF c(11) as d(7)] by simp_all
  show "nrows (pol_dP_scalar s) = (if length (keys_P s) = 1 then 1 else length (fst (scalargrid s)))"
    "ncols (pol_dP_scalar s) = (if length (keys_P s) = 1 then length (fst (scalargrid s)) else length (keys_P s))"
    using amap2_basis_shape[OF c(12) bs d(7)] by simp_all
  show "nrows (tor_P_vector s) = (if length (keys_T s) = 1 then 1 else length (fst (vectorgrid s)))"
    "ncols (tor_P_vector s) = (if length (keys_T s) = 1 then length (fst (vectorgrid s)) else length (keys_T s))"
    using basis_shape[OF c(13) av d(8)] by simp_all
  show "nrows (tor_dP_vector s) = (if length (keys_T s) = 1 then 1 else length (fst (vectorgrid s)))"
    "ncols (tor_dP_vector s) = (if length (keys_T s) = 1 then length (fst (vectorgrid s)) else length (keys_T s))"
    using amap2_basis_shape[OF c(14) bv d(8)] by simp_all
  show "nrows (tor_P_scalar s) = (if length (keys_T s) = 1 then 1 else length (fst (scalargrid s)))"
    "ncols (tor_P_scalar s) = (if length (keys_T s) = 1 then length (fst (scalargrid s)) else length (keys_T s))"
    using basis_shape[OF c(15) as d(8)] by simp_all
  show "nrows (tor_dP_scalar s) = (if length (keys_T s) = 1 then 1 else length (fst (scalargrid s)))"
    "ncols (tor_dP_scalar s) = (if length (keys_T s) = 1 then length (fst (scalargrid s)) else length (keys_T s))"
    using amap2_basis_shape[OF c(16) bs d(8)] by simp_all
qed

lemma engine_wf:
  assumes ok: "engine_ok lg s"
  shows "wf (pol_P_vector s)" "wf (pol_dP_vector s)" "wf (pol_P_scalar s)" "wf (pol_dP_scalar s)"
    "wf (tor_P_vector s)" "wf (tor_dP_vector s)" "wf (tor_P_scalar s)" "wf (tor_dP_scalar s)"
  using engine_ok_cache(9,11,13,15)[OF ok, THEN wf_basis]
    engine_ok_cache(10,12,14,16)[OF ok, THEN wf_amap2_basis]
  by simp_all

lemma cf_cached_succeeds:
  assumes ok: "engine_ok lg s" and al: "aligned lg"
    and tc: "length (tor_c s) = length (keys_T s)" and ts: "length (tor_s s) = length (keys_T s)"
    and k: "2 \<le> length (keys_T s)"
  shows "\<exists>e n. cf_cached s = Inr (e, n) \<and> length e = length (fst (vectorgrid s)) \<and>
               length n = length (fst (vectorgrid s))"
proof -
  from k have k1: "length (keys_T s) \<noteq> 1" "length (keys_T s) \<noteq> Suc 0" by simp_all
  note sh = engine_azimuth_shapes[OF ok] engine_legendre_shapes[OF ok al] engine_ok_D[OF ok]
  show ?thesis
    unfolding cf_cached_def
    by (rule bnd_pair_flattenI) (simp_all add: shE_ew sh k1 tc ts)
qed

lemma df_cached_succeeds:
  assumes ok: "engine_ok lg s" and al: "aligned lg"
    and pc: "length (pol_c s) = length (keys_P s)" and ps: "length (pol_s s) = length (keys_P s)"
    and k: "2 \<le> length (keys_P s)"
  shows "\<exists>e n. df_cached s (df_rtor s q) = Inr (e, n) \<and> length e = length (fst (vectorgrid s)) \<and>
               length n = length (fst (vectorgrid s))"
proof -
  from k have k1: "length (keys_P s) \<noteq> 1" "length (keys_P s) \<noteq> Suc 0" by simp_all
  note sh = engine_azimuth_shapes[OF ok] engine_legendre_shapes[OF ok al] engine_ok_D[OF ok]
  have R: "nrows (df_rtor s q) = 1" "ncols (df_rtor s q) = length (keys_P s)"
    by (simp_all add: df_rtor_def sh)
  show ?thesis
    unfolding df_cached_def
    by (rule bnd_pair_flattenI) (simp_all add: shE_ew sh k1 pc ps R)
qed

subsection \<open>The constructor succeeds\<close>

lemma lookup_keys_Inr:
  "list_all (\<lambda>k. tab k \<noteq> None) ks \<Longrightarrow> \<exists>cs. lookup_keys tab ks = Inr cs"
  by (induction ks) auto

lemma stack_keys_Inr:
  "list_all (\<lambda>c. length c = n) cs \<Longrightarrow> \<exists>A. stack_keys cs = Inr A"
  by (cases cs) (auto simp: stack_keys_def list_all_iff)

lemma basis_Inr:
  assumes "list_all (\<lambda>k. tab k \<noteq> None) ks" and "\<And>k c. tab k = Some c \<Longrightarrow> length c = n"
  shows "\<exists>A. basis tab ks = Inr A"
proof -
  from lookup_keys_Inr[OF assms(1)] obtain cs where cs: "lookup_keys tab ks = Inr cs" by blast
  from lookup_keys_aligned[OF cs assms(2)] have "list_all (\<lambda>c. length c = n) cs" .
  from stack_keys_Inr[OF this] cs show ?thesis by (auto simp: basis_def)
qed

lemma serves_basis:
  assumes al: "aligned lg" and sv: "serves lg n m ks"
  shows "\<exists>A. basis (fst (lg n m th)) ks = Inr A" "\<exists>A. amap2 f (basis (snd (lg n m th)) ks) = Inr A"
proof -
  from sv have a: "list_all (\<lambda>k. fst (lg n m th) k \<noteq> None) ks"
    and b: "list_all (\<lambda>k. snd (lg n m th) k \<noteq> None) ks"
    by (auto simp: serves_def list_all_iff)
  show "\<exists>A. basis (fst (lg n m th)) ks = Inr A"
    using basis_Inr[OF a, of "length th"] aligned_fst[OF al] by blast
  have "\<exists>A. basis (snd (lg n m th)) ks = Inr A"
    using basis_Inr[OF b, of "length th"] aligned_snd[OF al] by blast
  then show "\<exists>A. amap2 f (basis (snd (lg n m th)) ks) = Inr A" by auto
qed

lemma calculate_matrices_succeeds:
  assumes al: "aligned lg" and sP: "serves lg (N s) (M s) (keys_P s)"
    and sT: "serves lg (N s) (M s) (keys_T s)"
  shows "\<exists>s'. calculate_matrices lg s = Inr s'"
proof -
  let ?v = "map (\<lambda>x. 90 - x) (fst (vectorgrid s))" and ?s = "map (\<lambda>x. 90 - x) (fst (scalargrid s))"
  obtain a1 a2 a3 a4 a5 a6 a7 a8 where az:
    "azimuth cos (m_P s) (snd (vectorgrid s)) (pi / 12) = Inr a1"
    "azimuth cos (m_P s) (snd (scalargrid s)) (pi / 12) = Inr a2"
    "azimuth sin (m_P s) (snd (vectorgrid s)) (pi / 12) = Inr a3"
    "azimuth sin (m_P s) (snd (scalargrid s)) (pi / 12) = Inr a4"
    "azimuth cos (m_T s) (snd (vectorgrid s)) (pi / 12) = Inr a5"
    "azimuth cos (m_T s) (snd (scalargrid s)) (pi / 12) = Inr a6"
    "azimuth sin (m_T s) (snd (vectorgrid s)) (pi / 12) = Inr a7"
    "azimuth sin (m_T s) (snd (scalargrid s)) (pi / 12) = Inr a8"
    using azimuth_Inr by metis
  obtain b1 b2 b3 b4 b5 b6 b7 b8 where bs:
    "basis (fst (lg (N s) (M s) ?v)) (keys_P s) = Inr b1"
    "amap2 uminus (basis (snd (lg (N s) (M s) ?v)) (keys_P s)) = Inr b2"
    "basis (fst (lg (N s) (M s) ?s)) (keys_P s) = Inr b3"
    "amap2 uminus (basis (snd (lg (N s) (M s) ?s)) (keys_P s)) = Inr b4"
    "basis (fst (lg (N s) (M s) ?v)) (keys_T s) = Inr b5"
    "amap2 uminus (basis (snd (lg (N s) (M s) ?v)) (keys_T s)) = Inr b6"
    "basis (fst (lg (N s) (M s) ?s)) (keys_T s) = Inr b7"
    "amap2 uminus (basis (snd (lg (N s) (M s) ?s)) (keys_T s)) = Inr b8"
    using serves_basis[OF al sP] serves_basis[OF al sT] by metis
  show ?thesis
    unfolding calculate_matrices_def Let_def
    by (simp add: az bs case_prod_beta)
qed

lemma get_vectorgrid_succeeds:
  assumes "eag (dr s) (M0 s) = (g0, g1, g2)" and "length g1 = length g2"
    and "length g0 = length g1" and "2 \<le> length g0"
  shows "\<exists>g. get_vectorgrid eag s = Inr g"
  using assms by (simp add: get_vectorgrid_def add1_def bool_index_def Let_def)

lemma get_scalargrid_succeeds:
  assumes "0 \<le> res"
  shows "\<exists>g. get_scalargrid s res = Inr (s\<lparr>scalar_resolution := res\<rparr>, g) \<and>
             length (fst g) = 2 * (nat res * nat res) \<and>
             fst g = concat (replicate (nat res) (map (\<lambda>i. minlat s + real i * ((maxlat s - minlat s) / real (nat res - 1))) [0..<nat res])) @
                     map uminus (concat (replicate (nat res) (map (\<lambda>i. minlat s + real i * ((maxlat s - minlat s) / real (nat res - 1))) [0..<nat res])))"
proof (cases "res = 1")
  case True
  then show ?thesis
    by (simp add: get_scalargrid_def linspace_def Let_def)
next
  case False
  with assms show ?thesis
    by (simp add: get_scalargrid_def linspace_def Let_def length_concat_replicate)
qed

lemma init_succeeds:
  assumes g: "gmv v By Bz tilt F107 = (tc, ts, pc, ps, pk, tk)"
    and len: "length ps = length pc" and pk: "pk \<noteq> []" and tk: "tk \<noteq> []"
    and e: "eag d m0 = (g0, g1, g2)" "length g1 = length g2" "length g0 = length g1"
      "2 \<le> length g0"
    and res: "0 \<le> res"
    and al: "aligned lg"
    and sv: "serves lg (Max (set (map fst tk))) (Max (set (map snd tk))) (pk @ tk)"
  shows "\<exists>s. init gmv eag lg v By Bz tilt F107 mn mx h d m0 res = Inr s"
proof -
  define s0 where "s0 = \<lparr>tor_c = tc, tor_s = ts, pol_c = pc, pol_s = ps,
                        pol_keys = pk, tor_keys = tk,
                        height = h, dr = d, M0 = m0,
                        minlat = mn, maxlat = mx,
                        keys_P = pk, keys_T = tk,
                        m_P = map snd pk, m_T = map snd tk, n_P = map fst pk, n_T = map fst tk,
                        N = fst (Max (set (map fst (tk @ tk))), Max (set (map snd (tk @ tk)))),
                        M = snd (Max (set (map fst (tk @ tk))), Max (set (map snd (tk @ tk)))),
                        vectorgrid = ([], []), scalargrid = ([], []),
                        scalar_resolution = 0,
                        pol_cosmphi_vector = unset, pol_cosmphi_scalar = unset,
                        pol_sinmphi_vector = unset, pol_sinmphi_scalar = unset,
                        tor_cosmphi_vector = unset, tor_cosmphi_scalar = unset,
                        tor_sinmphi_vector = unset, tor_sinmphi_scalar = unset,
                        coslambda_vector = unset,
                        pol_P_vector = unset, pol_dP_vector = unset,
                        pol_P_scalar = unset, pol_dP_scalar = unset,
                        tor_P_vector = unset, tor_dP_vector = unset,
                        tor_P_scalar = unset, tor_dP_scalar = unset\<rparr>"
  have "eag (dr s0) (M0 s0) = (g0, g1, g2)" using e(1) by (simp add: s0_def)
  from get_vectorgrid_succeeds[of eag s0, OF this e(2-4)] obtain vg
    where vg: "get_vectorgrid eag s0 = Inr vg" by blast
  from get_scalargrid_succeeds[OF res, of "s0\<lparr>vectorgrid := vg\<rparr>"] obtain sg
    where sg: "get_scalargrid (s0\<lparr>vectorgrid := vg\<rparr>) res =
                 Inr (s0\<lparr>vectorgrid := vg, scalar_resolution := res\<rparr>, sg)" by auto
  let ?s3 = "s0\<lparr>vectorgrid := vg, scalar_resolution := res, scalargrid := sg\<rparr>"
  have NM: "N ?s3 = Max (set (map fst tk))" "M ?s3 = Max (set (map snd tk))"
    by (simp_all add: s0_def)
  from sv have "serves lg (N ?s3) (M ?s3) (keys_P ?s3)" "serves lg (N ?s3) (M ?s3) (keys_T ?s3)"
    unfolding NM by (simp_all add: serves_def s0_def)
  from calculate_matrices_succeeds[OF al this] obtain s where
    cm: "calculate_matrices lg ?s3 = Inr s" by blast
  show ?thesis
    using g len pk tk vg sg cm unfolding s0_def
    by (auto simp: init_def key_row_def highest_def Let_def)
qed

subsection \<open>An engine to evaluate, and the two paths of an evaluator\<close>

lemma aligned_lg_all: "aligned lg_all"
  by (auto simp: aligned_def lg_all_def)

lemma serves_lg_all: "serves lg_all n m ks"
  by (simp add: serves_def lg_all_def list_all_iff)

lemma demo_engine:
  assumes "0 \<le> res"
  shows "\<exists>s. init gmv_high_pol eag3 lg_all v By Bz tilt F107 mn mx h d m0 res = Inr s"
proof -
  have g: "gmv_high_pol v By Bz tilt F107 =
             ([v, 2], [3, By], [Bz, 5], [6, tilt], [(3, 2), (2, 0)], [(1, 0), (1, 1)])"
    by (simp add: gmv_high_pol_def)
  have e: "eag3 d m0 = ([60, 70, 80], [0, 8, 16], [8, 8, 8])"
    by (simp add: eag3_def)
  show ?thesis
    by (rule init_succeeds[where gmv = gmv_high_pol and v = v and By = By and Bz = Bz
          and tilt = tilt and ?F107.0 = F107 and eag = eag3 and d = d and ?m0.0 = m0
          and lg = lg_all, OF g _ _ _ e _ _ _ assms aligned_lg_all serves_lg_all])
       simp_all
qed

lemma demo_engine_D:
  assumes "init gmv_high_pol eag3 lg_all v By Bz tilt F107 mn mx h d m0 res = Inr s"
  shows "engine_ok lg_all s" "length (tor_c s) = length (keys_T s)"
    "length (tor_s s) = length (keys_T s)" "length (pol_c s) = length (keys_P s)"
    "length (pol_s s) = length (keys_P s)" "2 \<le> length (keys_P s)" "2 \<le> length (keys_T s)"
    "height s = h" "keys_P s = [(3, 2), (2, 0)]" "keys_T s = [(1, 0), (1, 1)]"
  using init_D(1,3,4,11)[OF assms] init_D(2)[OF assms, symmetric]
  by (simp_all add: gmv_high_pol_def)

lemma rr_Inr: "REFRE + height s \<noteq> 0 \<Longrightarrow> rr s = Inr (REFRE / (REFRE + height s))"
  by (simp add: rr_def)

lemma REFRE_110: "REFRE + 110 \<noteq> 0"
  by (simp add: REFRE_def)

lemma eval_paths:
  assumes ok: "engine_ok lg s"
  shows "\<exists>a b. get_curl_free_current lg s mlat mlt = cf_custom lg s a b \<and>
     get_divergence_free_current lg s mlat mlt =
       bnd (rr s) (\<lambda>q. df_custom lg s (df_rtor s q) a b)"
proof -
  let ?a = "fst (vectorgrid s)" and ?b = "snd (vectorgrid s)"
  have c: "cf_cached s = cf_custom lg s ?a ?b"
    by (rule cf_custom_cached[OF ok, symmetric])
  have d: "bnd (rr s) (\<lambda>q. df_cached s (df_rtor s q)) =
           bnd (rr s) (\<lambda>q. df_custom lg s (df_rtor s q) ?a ?b)"
    by (simp add: df_custom_cached[OF ok wf_df_rtor])
  show ?thesis
  proof (cases mlat)
    case None
    then have "get_curl_free_current lg s mlat mlt = cf_custom lg s ?a ?b \<and>
       get_divergence_free_current lg s mlat mlt =
         bnd (rr s) (\<lambda>q. df_custom lg s (df_rtor s q) ?a ?b)"
      by (simp add: get_curl_free_current_def get_divergence_free_current_def c d)
    then show ?thesis by blast
  next
    case (Some a)
    note a = this
    show ?thesis
    proof (cases mlt)
      case None
      with a have "get_curl_free_current lg s mlat mlt = cf_custom lg s ?a ?b \<and>
         get_divergence_free_current lg s mlat mlt =
           bnd (rr s) (\<lambda>q. df_custom lg s (df_rtor s q) ?a ?b)"
        by (simp add: get_curl_free_current_def get_divergence_free_current_def c d)
      then show ?thesis by blast
    next
      case (Some b)
      with a have "get_curl_free_current lg s mlat mlt = cf_custom lg s a b \<and>
         get_divergence_free_current lg s mlat mlt =
           bnd (rr s) (\<lambda>q. df_custom lg s (df_rtor s q) a b)"
        by (simp add: get_curl_free_current_def get_divergence_free_current_def)
      then show ?thesis by blast
    qed
  qed
qed

lemma add1_same_length:
  "length xs = length ys \<Longrightarrow> add1 xs ys = Inr (map2 (+) xs ys)"
  by (simp add: add1_def)

lemma total_pointwise:
  assumes ok: "engine_ok lg s" and al: "aligned lg"
    and tc: "length (tor_c s) = length (keys_T s)" and ts: "length (tor_s s) = length (keys_T s)"
    and pc: "length (pol_c s) = length (keys_P s)" and ps: "length (pol_s s) = length (keys_P s)"
    and cf: "get_curl_free_current lg s mlat mlt = Inr (ce, cn)"
    and df: "get_divergence_free_current lg s mlat mlt = Inr (de, dn)"
  shows "get_total_current lg s mlat mlt = Inr [map2 (+) ce de, map2 (+) cn dn]"
    and "length ce = length de" and "length cn = length dn"
proof -
  note d = engine_ok_D[OF ok]
  from eval_paths[OF ok, of mlat mlt] obtain a b where
    p: "get_curl_free_current lg s mlat mlt = cf_custom lg s a b"
      "get_divergence_free_current lg s mlat mlt =
         bnd (rr s) (\<lambda>q. df_custom lg s (df_rtor s q) a b)"
    by blast
  from p(1) cf have c: "cf_custom lg s a b = Inr (ce, cn)" by simp
  from df[unfolded p(2)] obtain q where f: "df_custom lg s (df_rtor s q) a b = Inr (de, dn)"
    by (auto simp: bnd_Inr_iff)
  from cf_custom_lengths[OF al d(3) d(8) tc ts c]
  have 1: "bdim (length a) (length b) = Inr (length ce)" "length cn = length ce" .
  have R: "nrows (df_rtor s q) = 1" "ncols (df_rtor s q) = length (keys_P s)"
    by (simp_all add: df_rtor_def d)
  from df_custom_lengths[OF al d(1) d(7) R pc ps f]
  have 2: "bdim (length a) (length b) = Inr (length de)" "length dn = length de" .
  from 1 2 show l: "length ce = length de" "length cn = length dn" by simp_all
  with cf df show "get_total_current lg s mlat mlt = Inr [map2 (+) ce de, map2 (+) cn dn]"
    by (simp add: get_total_current_def add1_same_length)
qed

section \<open>update_model leaves the grids, the matrices and the derived keys alone\<close>

text \<open>
  Claim C5.  For every state and every driver tuple, \<open>update_model\<close> leaves \<open>vectorgrid\<close>,
  \<open>scalargrid\<close> and every cached matrix (the cosine and sine matrices and the Legendre
  \<open>P\<close> and \<open>dP\<close> matrices of both grids and both key sets, and \<open>coslambda_vector\<close>) exactly
  as they were, and so the height and the grid parameters; with claim C9 below, the four
  coefficient vectors and the two key lists are all it assigns.
\<close>

theorem update_model_keeps_grids_and_matrices:
  "vectorgrid (update_model gmv s v By Bz tilt F107) = vectorgrid s \<and>
   scalargrid (update_model gmv s v By Bz tilt F107) = scalargrid s \<and>
   pol_cosmphi_vector (update_model gmv s v By Bz tilt F107) = pol_cosmphi_vector s \<and>
   pol_cosmphi_scalar (update_model gmv s v By Bz tilt F107) = pol_cosmphi_scalar s \<and>
   pol_sinmphi_vector (update_model gmv s v By Bz tilt F107) = pol_sinmphi_vector s \<and>
   pol_sinmphi_scalar (update_model gmv s v By Bz tilt F107) = pol_sinmphi_scalar s \<and>
   tor_cosmphi_vector (update_model gmv s v By Bz tilt F107) = tor_cosmphi_vector s \<and>
   tor_cosmphi_scalar (update_model gmv s v By Bz tilt F107) = tor_cosmphi_scalar s \<and>
   tor_sinmphi_vector (update_model gmv s v By Bz tilt F107) = tor_sinmphi_vector s \<and>
   tor_sinmphi_scalar (update_model gmv s v By Bz tilt F107) = tor_sinmphi_scalar s \<and>
   coslambda_vector (update_model gmv s v By Bz tilt F107) = coslambda_vector s \<and>
   pol_P_vector (update_model gmv s v By Bz tilt F107) = pol_P_vector s \<and>
   pol_dP_vector (update_model gmv s v By Bz tilt F107) = pol_dP_vector s \<and>
   pol_P_scalar (update_model gmv s v By Bz tilt F107) = pol_P_scalar s \<and>
   pol_dP_scalar (update_model gmv s v By Bz tilt F107) = pol_dP_scalar s \<and>
   tor_P_vector (update_model gmv s v By Bz tilt F107) = tor_P_vector s \<and>
   tor_dP_vector (update_model gmv s v By Bz tilt F107) = tor_dP_vector s \<and>
   tor_P_scalar (update_model gmv s v By Bz tilt F107) = tor_P_scalar s \<and>
   tor_dP_scalar (update_model gmv s v By Bz tilt F107) = tor_dP_scalar s \<and>
   height (update_model gmv s v By Bz tilt F107) = height s \<and>
   dr (update_model gmv s v By Bz tilt F107) = dr s \<and>
   M0 (update_model gmv s v By Bz tilt F107) = M0 s \<and>
   minlat (update_model gmv s v By Bz tilt F107) = minlat s \<and>
   maxlat (update_model gmv s v By Bz tilt F107) = maxlat s \<and>
   scalar_resolution (update_model gmv s v By Bz tilt F107) = scalar_resolution s"
  by (simp add: update_model_def split: prod.splits)

text \<open>
  Claim C9.  After \<open>update_model\<close> the derived key structures \<open>keys_P\<close>, \<open>keys_T\<close>, \<open>m_P\<close>,
  \<open>m_T\<close>, \<open>n_P\<close>, \<open>n_T\<close>, \<open>N\<close> and \<open>M\<close> are the ones of the state before, while \<open>pol_keys\<close>
  and \<open>tor_keys\<close> are the key lists the provider has just returned; and no evaluator
  depends on \<open>pol_keys\<close> or \<open>tor_keys\<close>, so the evaluators keep using the old structure.
\<close>

theorem update_model_keeps_derived_keys:
  "keys_P (update_model gmv s v By Bz tilt F107) = keys_P s \<and>
   keys_T (update_model gmv s v By Bz tilt F107) = keys_T s \<and>
   m_P (update_model gmv s v By Bz tilt F107) = m_P s \<and>
   m_T (update_model gmv s v By Bz tilt F107) = m_T s \<and>
   n_P (update_model gmv s v By Bz tilt F107) = n_P s \<and>
   n_T (update_model gmv s v By Bz tilt F107) = n_T s \<and>
   N (update_model gmv s v By Bz tilt F107) = N s \<and>
   M (update_model gmv s v By Bz tilt F107) = M s \<and>
   pol_keys (update_model gmv s v By Bz tilt F107) =
     fst (snd (snd (snd (snd (gmv v By Bz tilt F107))))) \<and>
   tor_keys (update_model gmv s v By Bz tilt F107) =
     snd (snd (snd (snd (snd (gmv v By Bz tilt F107))))) \<and>
   get_divergence_free_current lg (s\<lparr>pol_keys := pk, tor_keys := tk\<rparr>) mlat mlt =
     get_divergence_free_current lg s mlat mlt \<and>
   get_curl_free_current lg (s\<lparr>pol_keys := pk, tor_keys := tk\<rparr>) mlat mlt =
     get_curl_free_current lg s mlat mlt \<and>
   get_total_current lg (s\<lparr>pol_keys := pk, tor_keys := tk\<rparr>) mlat mlt =
     get_total_current lg s mlat mlt \<and>
   get_upward_current (s\<lparr>pol_keys := pk, tor_keys := tk\<rparr>) = get_upward_current s \<and>
   get_ground_perturbation lg (s\<lparr>pol_keys := pk, tor_keys := tk\<rparr>) xs ys =
     get_ground_perturbation lg s xs ys \<and>
   get_AE_indices (s\<lparr>pol_keys := pk, tor_keys := tk\<rparr>) = get_AE_indices s"
proof -
  let ?s' = "s\<lparr>pol_keys := pk, tor_keys := tk\<rparr>"
  have fields: "keys_P (update_model gmv s v By Bz tilt F107) = keys_P s \<and>
      keys_T (update_model gmv s v By Bz tilt F107) = keys_T s \<and>
      m_P (update_model gmv s v By Bz tilt F107) = m_P s \<and>
      m_T (update_model gmv s v By Bz tilt F107) = m_T s \<and>
      n_P (update_model gmv s v By Bz tilt F107) = n_P s \<and>
      n_T (update_model gmv s v By Bz tilt F107) = n_T s \<and>
      N (update_model gmv s v By Bz tilt F107) = N s \<and>
      M (update_model gmv s v By Bz tilt F107) = M s \<and>
      pol_keys (update_model gmv s v By Bz tilt F107) =
        fst (snd (snd (snd (snd (gmv v By Bz tilt F107))))) \<and>
      tor_keys (update_model gmv s v By Bz tilt F107) =
        snd (snd (snd (snd (snd (gmv v By Bz tilt F107)))))"
    by (simp add: update_model_def split: prod.splits)
  have df: "get_divergence_free_current lg ?s' mlat mlt = get_divergence_free_current lg s mlat mlt"
    by (simp add: get_divergence_free_current_def rr_def df_rtor_def df_cached_def
        df_custom_def cong: option.case_cong)
  have cf: "get_curl_free_current lg ?s' mlat mlt = get_curl_free_current lg s mlat mlt"
    by (simp add: get_curl_free_current_def cf_cached_def cf_custom_def
        cong: option.case_cong)
  have tot: "get_total_current lg ?s' mlat mlt = get_total_current lg s mlat mlt"
    by (simp only: get_total_current_def df cf)
  have up: "get_upward_current ?s' = get_upward_current s"
    by (simp add: get_upward_current_def)
  have gp: "get_ground_perturbation lg ?s' xs ys = get_ground_perturbation lg s xs ys"
    by (simp add: get_ground_perturbation_def rr_def)
  have ae: "get_AE_indices ?s' = get_AE_indices s"
    by (simp add: get_AE_indices_def rr_def)
  from fields df cf tot up gp ae show ?thesis by simp
qed

section \<open>The grids\<close>

text \<open>
  Claim C6.  Every grid that \<open>get_vectorgrid\<close> or \<open>get_scalargrid\<close> returns, and so each of
  the two grids of a constructed engine, has an even length \<open>2 * k\<close>, and for every
  \<open>i < k\<close> the point \<open>k + i\<close> has the negated latitude and the same local time as the
  point \<open>i\<close>.
\<close>

theorem grid_halves_mirrored:
  assumes "get_vectorgrid eag s = Inr g \<or> get_scalargrid s res = Inr (s', g) \<or>
           (init gmv eag lg v By Bz tilt F107 mn mx h d m0 res = Inr s \<and>
            (g = vectorgrid s \<or> g = scalargrid s))"
  shows "\<exists>k. length (fst g) = 2 * k \<and> length (snd g) = 2 * k \<and>
           (\<forall>i<k. fst g ! (k + i) = - fst g ! i \<and> snd g ! (k + i) = snd g ! i)"
proof -
  from assms consider
    (c1) "get_vectorgrid eag s = Inr g"
    | (c2) "get_scalargrid s res = Inr (s', g)"
    | (c3) "init gmv eag lg v By Bz tilt F107 mn mx h d m0 res = Inr s" "g = vectorgrid s"
    | (c4) "init gmv eag lg v By Bz tilt F107 mn mx h d m0 res = Inr s" "g = scalargrid s"
    by blast
  then show ?thesis
  proof cases
    case c1
    then show ?thesis by (rule vectorgrid_mirrored)
  next
    case c2
    then show ?thesis by (rule scalargrid_mirrored)
  next
    case c3
    from init_D(15)[OF c3(1)] obtain s0 where "get_vectorgrid eag s0 = Inr g"
      using c3(2) by auto
    then show ?thesis by (rule vectorgrid_mirrored)
  next
    case c4
    from init_D(16)[OF c4(1)] obtain s1 s2 where "get_scalargrid s1 res = Inr (s2, g)"
      using c4(2) by auto
    then show ?thesis by (rule scalargrid_mirrored)
  qed
qed

theorem grid_halves_mirrored_witness:
  "\<forall>s. get_vectorgrid eag3 (s\<lparr>minlat := 60, maxlat := 89.99\<rparr>) =
          Inr ([65, 75, 85, - 65, - 75, - 85], [4, 12, 20, 4, 12, 20]) \<and>
       (\<exists>k. length [65, 75, 85, - 65, - 75, - 85 :: real] = 2 * k \<and>
            length [4, 12, 20, 4, 12, 20 :: real] = 2 * k \<and>
            (\<forall>i<k. [65, 75, 85, - 65, - 75, - 85 :: real] ! (k + i) =
                      - [65, 75, 85, - 65, - 75, - 85] ! i \<and>
                   [4, 12, 20, 4, 12, 20 :: real] ! (k + i) = [4, 12, 20, 4, 12, 20] ! i))"
proof
  fix s :: amps
  have e: "get_vectorgrid eag3 (s\<lparr>minlat := 60, maxlat := 89.99\<rparr>) =
             Inr ([65, 75, 85, - 65, - 75, - 85], [4, 12, 20, 4, 12, 20])"
    by (simp add: get_vectorgrid_def eag3_def add1_def bool_index_def Let_def)
  from grid_halves_mirrored[OF disjI1, OF e] e
  show "get_vectorgrid eag3 (s\<lparr>minlat := 60, maxlat := 89.99\<rparr>) =
          Inr ([65, 75, 85, - 65, - 75, - 85], [4, 12, 20, 4, 12, 20]) \<and>
       (\<exists>k. length [65, 75, 85, - 65, - 75, - 85 :: real] = 2 * k \<and>
            length [4, 12, 20, 4, 12, 20 :: real] = 2 * k \<and>
            (\<forall>i<k. [65, 75, 85, - 65, - 75, - 85 :: real] ! (k + i) =
                      - [65, 75, 85, - 65, - 75, - 85] ! i \<and>
                   [4, 12, 20, 4, 12, 20 :: real] ! (k + i) = [4, 12, 20, 4, 12, 20] ! i))"
    by simp
qed

section \<open>The horizontal currents\<close>

text \<open>
  Claim C1.  In an engine as the constructor and \<open>update_model\<close> leave it, with coefficient
  vectors as long as their key lists, and for every choice of coordinates (the cached vector
  grid or custom arrays): \<open>get_total_current\<close> raises what \<open>get_curl_free_current\<close> raises,
  else what \<open>get_divergence_free_current\<close> raises, and when both return, their eastward
  outputs have one length and so have their northward outputs, and \<open>get_total_current\<close>
  returns the two componentwise sums.
\<close>

theorem total_current_is_sum:
  assumes "engine_ok lg s" and "aligned lg"
    and "length (tor_c s) = length (keys_T s)" and "length (tor_s s) = length (keys_T s)"
    and "length (pol_c s) = length (keys_P s)" and "length (pol_s s) = length (keys_P s)"
  shows "(\<forall>err. get_curl_free_current lg s mlat mlt = Inl err \<longrightarrow>
            get_total_current lg s mlat mlt = Inl err) \<and>
         (\<forall>c err. get_curl_free_current lg s mlat mlt = Inr c \<longrightarrow>
            get_divergence_free_current lg s mlat mlt = Inl err \<longrightarrow>
            get_total_current lg s mlat mlt = Inl err) \<and>
         (\<forall>ce cn de dn.
            get_curl_free_current lg s mlat mlt = Inr (ce, cn) \<longrightarrow>
            get_divergence_free_current lg s mlat mlt = Inr (de, dn) \<longrightarrow>
            (\<exists>e n. get_total_current lg s mlat mlt = Inr [e, n] \<and>
               length e = length ce \<and> length ce = length de \<and>
               (\<forall>i<length e. e ! i = ce ! i + de ! i) \<and>
               length n = length cn \<and> length cn = length dn \<and>
               (\<forall>i<length n. n ! i = cn ! i + dn ! i)))"
proof (intro conjI allI impI)
  fix err
  assume "get_curl_free_current lg s mlat mlt = Inl err"
  then show "get_total_current lg s mlat mlt = Inl err"
    by (simp add: get_total_current_def)
next
  fix c err
  assume "get_curl_free_current lg s mlat mlt = Inr c"
    and "get_divergence_free_current lg s mlat mlt = Inl err"
  then show "get_total_current lg s mlat mlt = Inl err"
    by (simp add: get_total_current_def)
next
  fix ce cn de dn
  assume cf: "get_curl_free_current lg s mlat mlt = Inr (ce, cn)"
    and df: "get_divergence_free_current lg s mlat mlt = Inr (de, dn)"
  note t = total_pointwise[OF assms cf df]
  show "\<exists>e n. get_total_current lg s mlat mlt = Inr [e, n] \<and>
               length e = length ce \<and> length ce = length de \<and>
               (\<forall>i<length e. e ! i = ce ! i + de ! i) \<and>
               length n = length cn \<and> length cn = length dn \<and>
               (\<forall>i<length n. n ! i = cn ! i + dn ! i)"
    by (rule exI[of _ "map2 (+) ce de"], rule exI[of _ "map2 (+) cn dn"])
       (simp add: t)
qed

theorem total_current_is_sum_witness:
  "\<exists>s ce cn de dn.
     init gmv_high_pol eag3 lg_all 300 (- 4) (- 3) 20 150 60 89.99 110 2 4 1 = Inr s \<and>
     engine_ok lg_all s \<and> aligned lg_all \<and>
     length (tor_c s) = length (keys_T s) \<and> length (tor_s s) = length (keys_T s) \<and>
     length (pol_c s) = length (keys_P s) \<and> length (pol_s s) = length (keys_P s) \<and>
     get_curl_free_current lg_all s None None = Inr (ce, cn) \<and>
     get_divergence_free_current lg_all s None None = Inr (de, dn) \<and>
     length ce = 6 \<and>
     (\<exists>e n. get_total_current lg_all s None None = Inr [e, n] \<and>
        length e = length ce \<and> length ce = length de \<and>
        (\<forall>i<length e. e ! i = ce ! i + de ! i) \<and>
        length n = length cn \<and> length cn = length dn \<and>
        (\<forall>i<length n. n ! i = cn ! i + dn ! i))"
proof -
  have "\<exists>s. init gmv_high_pol eag3 lg_all 300 (- 4) (- 3) 20 150 60 89.99 110 2 4 1 = Inr s"
    by (rule demo_engine) simp
  then obtain s where
    i: "init gmv_high_pol eag3 lg_all 300 (- 4) (- 3) 20 150 60 89.99 110 2 4 1 = Inr s" ..
  note d = demo_engine_D[OF i]
  from init_D(15)[OF i] have vg: "vectorgrid s = ([65, 75, 85, - 65, - 75, - 85], [4, 12, 20, 4, 12, 20])"
    by (auto simp: get_vectorgrid_def eag3_def add1_def bool_index_def Let_def)
  from cf_cached_succeeds[OF d(1) aligned_lg_all d(2,3,7)] obtain ce cn where
    cf: "get_curl_free_current lg_all s None None = Inr (ce, cn)" and lc: "length ce = 6"
    by (auto simp: get_curl_free_current_def vg)
  have q: "rr s = Inr (REFRE / (REFRE + 110))"
    using rr_Inr[of s] REFRE_110 d(8) by simp
  from df_cached_succeeds[OF d(1) aligned_lg_all d(4,5,6), of "REFRE / (REFRE + 110)"]
  obtain de dn where df: "get_divergence_free_current lg_all s None None = Inr (de, dn)"
    by (auto simp: get_divergence_free_current_def q)
  from total_current_is_sum[OF d(1) aligned_lg_all d(2,3,4,5), of None None] cf df
  have "\<exists>e n. get_total_current lg_all s None None = Inr [e, n] \<and>
        length e = length ce \<and> length ce = length de \<and>
        (\<forall>i<length e. e ! i = ce ! i + de ! i) \<and>
        length n = length cn \<and> length cn = length dn \<and>
        (\<forall>i<length n. n ! i = cn ! i + dn ! i)"
    by blast
  with i d(1-5) aligned_lg_all cf df lc show ?thesis by blast
qed

text \<open>
  Claim C2.  In an engine whose cache is the one \<open>calculate_matrices\<close> computes, and for
  every coefficient state, \<open>get_divergence_free_current\<close> and \<open>get_curl_free_current\<close>
  called with the coordinates stored in \<open>vectorgrid\<close> return what the calls without
  coordinates return (the same outputs, or the same error).
\<close>

theorem custom_coordinates_at_vectorgrid:
  assumes "engine_ok lg s"
  shows "get_divergence_free_current lg s (Some (fst (vectorgrid s))) (Some (snd (vectorgrid s))) =
           get_divergence_free_current lg s None None \<and>
         get_curl_free_current lg s (Some (fst (vectorgrid s))) (Some (snd (vectorgrid s))) =
           get_curl_free_current lg s None None"
  by (simp add: get_divergence_free_current_def get_curl_free_current_def
      df_custom_cached[OF assms wf_df_rtor] cf_custom_cached[OF assms])

theorem custom_coordinates_at_vectorgrid_witness:
  "\<exists>s e n. init gmv_high_pol eag3 lg_all 300 (- 4) (- 3) 20 150 60 89.99 110 2 4 1 = Inr s \<and>
     engine_ok lg_all s \<and>
     vectorgrid s = ([65, 75, 85, - 65, - 75, - 85], [4, 12, 20, 4, 12, 20]) \<and>
     get_divergence_free_current lg_all s None None = Inr (e, n) \<and>
     get_divergence_free_current lg_all s (Some [65, 75, 85, - 65, - 75, - 85])
       (Some [4, 12, 20, 4, 12, 20]) = Inr (e, n) \<and>
     get_curl_free_current lg_all s (Some [65, 75, 85, - 65, - 75, - 85])
       (Some [4, 12, 20, 4, 12, 20]) = get_curl_free_current lg_all s None None"
proof -
  have "\<exists>s. init gmv_high_pol eag3 lg_all 300 (- 4) (- 3) 20 150 60 89.99 110 2 4 1 = Inr s"
    by (rule demo_engine) simp
  then obtain s where
    i: "init gmv_high_pol eag3 lg_all 300 (- 4) (- 3) 20 150 60 89.99 110 2 4 1 = Inr s" ..
  note d = demo_engine_D[OF i]
  from init_D(15)[OF i] have vg: "vectorgrid s = ([65, 75, 85, - 65, - 75, - 85], [4, 12, 20, 4, 12, 20])"
    by (auto simp: get_vectorgrid_def eag3_def add1_def bool_index_def Let_def)
  have q: "rr s = Inr (REFRE / (REFRE + 110))"
    using rr_Inr[of s] REFRE_110 d(8) by simp
  from df_cached_succeeds[OF d(1) aligned_lg_all d(4,5,6), of "REFRE / (REFRE + 110)"]
  obtain e n where df: "get_divergence_free_current lg_all s None None = Inr (e, n)"
    by (auto simp: get_divergence_free_current_def q)
  from custom_coordinates_at_vectorgrid[OF d(1)] i d(1) vg df show ?thesis
    by auto
qed

text \<open>
  Claim C10.  When exactly one of \<open>mlat\<close>, \<open>mlt\<close> is given, each of the three evaluators of
  the horizontal current returns what it returns with no coordinates at all, so the given
  coordinate is ignored; and in an engine as the constructor leaves it, with at least two keys
  in each key list, coefficient vectors as long as their key lists and a height other than
  \<open>- REFRE\<close>, these calls do not fail.
\<close>

theorem one_coordinate_is_ignored:
  "get_divergence_free_current lg s (Some a) None = get_divergence_free_current lg s None None \<and>
   get_divergence_free_current lg s None (Some b) = get_divergence_free_current lg s None None \<and>
   get_curl_free_current lg s (Some a) None = get_curl_free_current lg s None None \<and>
   get_curl_free_current lg s None (Some b) = get_curl_free_current lg s None None \<and>
   get_total_current lg s (Some a) None = get_total_current lg s None None \<and>
   get_total_current lg s None (Some b) = get_total_current lg s None None \<and>
   (engine_ok lg s \<and> aligned lg \<and>
    length (tor_c s) = length (keys_T s) \<and> length (tor_s s) = length (keys_T s) \<and>
    length (pol_c s) = length (keys_P s) \<and> length (pol_s s) = length (keys_P s) \<and>
    2 \<le> length (keys_P s) \<and> 2 \<le> length (keys_T s) \<and> REFRE + height s \<noteq> 0 \<longrightarrow>
    (\<exists>r. get_divergence_free_current lg s (Some a) None = Inr r) \<and>
    (\<exists>r. get_divergence_free_current lg s None (Some b) = Inr r) \<and>
    (\<exists>r. get_curl_free_current lg s (Some a) None = Inr r) \<and>
    (\<exists>r. get_curl_free_current lg s None (Some b) = Inr r) \<and>
    (\<exists>r. get_total_current lg s (Some a) None = Inr r) \<and>
    (\<exists>r. get_total_current lg s None (Some b) = Inr r))"
proof -
  have df: "get_divergence_free_current lg s (Some a) None = get_divergence_free_current lg s None None"
    "get_divergence_free_current lg s None (Some b) = get_divergence_free_current lg s None None"
    by (simp_all add: get_divergence_free_current_def)
  have cf: "get_curl_free_current lg s (Some a) None = get_curl_free_current lg s None None"
    "get_curl_free_current lg s None (Some b) = get_curl_free_current lg s None None"
    by (simp_all add: get_curl_free_current_def)
  have tot: "get_total_current lg s (Some a) None = get_total_current lg s None None"
    "get_total_current lg s None (Some b) = get_total_current lg s None None"
    by (simp_all add: get_total_current_def df cf)
  have ok: "(\<exists>r. get_divergence_free_current lg s None None = Inr r) \<and>
      (\<exists>r. get_curl_free_current lg s None None = Inr r) \<and>
      (\<exists>r. get_total_current lg s None None = Inr r)"
    if h: "engine_ok lg s" "aligned lg"
      "length (tor_c s) = length (keys_T s)" "length (tor_s s) = length (keys_T s)"
      "length (pol_c s) = length (keys_P s)" "length (pol_s s) = length (keys_P s)"
      "2 \<le> length (keys_P s)" "2 \<le> length (keys_T s)" "REFRE + height s \<noteq> 0"
  proof -
    from cf_cached_succeeds[OF h(1,2,3,4,8)] obtain ce cn where
      c: "get_curl_free_current lg s None None = Inr (ce, cn)"
      by (auto simp: get_curl_free_current_def)
    from df_cached_succeeds[OF h(1,2,5,6,7), of "REFRE / (REFRE + height s)"]
    obtain de dn where d: "get_divergence_free_current lg s None None = Inr (de, dn)"
      by (auto simp: get_divergence_free_current_def rr_Inr[OF h(9)])
    from total_pointwise(1)[OF h(1-6) c d] c d show ?thesis by simp
  qed
  from df cf tot ok show ?thesis by simp
qed

theorem one_coordinate_is_ignored_witness:
  "\<exists>s. init gmv_high_pol eag3 lg_all 300 (- 4) (- 3) 20 150 60 89.99 110 2 4 1 = Inr s \<and>
     (engine_ok lg_all s \<and> aligned lg_all \<and>
      length (tor_c s) = length (keys_T s) \<and> length (tor_s s) = length (keys_T s) \<and>
      length (pol_c s) = length (keys_P s) \<and> length (pol_s s) = length (keys_P s) \<and>
      2 \<le> length (keys_P s) \<and> 2 \<le> length (keys_T s) \<and> REFRE + height s \<noteq> 0) \<and>
     get_total_current lg_all s (Some [70, 80]) None = get_total_current lg_all s None None \<and>
     (\<exists>r. get_total_current lg_all s (Some [70, 80]) None = Inr r) \<and>
     (\<exists>r. get_divergence_free_current lg_all s None (Some [3]) = Inr r)"
proof -
  have "\<exists>s. init gmv_high_pol eag3 lg_all 300 (- 4) (- 3) 20 150 60 89.99 110 2 4 1 = Inr s"
    by (rule demo_engine) simp
  then obtain s where
    i: "init gmv_high_pol eag3 lg_all 300 (- 4) (- 3) 20 150 60 89.99 110 2 4 1 = Inr s" ..
  note d = demo_engine_D[OF i]
  have h: "REFRE + height s \<noteq> 0" using REFRE_110 d(8) by simp
  from one_coordinate_is_ignored[of lg_all s "[70, 80]" "[3]"] i d(1-7) aligned_lg_all h
  show ?thesis by blast
qed

section \<open>The scalar grid and the upward current\<close>

lemma MU0_pos: "0 < MU0"
  by (simp add: MU0_def)

lemma upward_current_shape:
  assumes ok: "engine_ok lg s" and al: "aligned lg"
    and tc: "length (tor_c s) = length (keys_T s)" and ts: "length (tor_s s) = length (keys_T s)"
    and k: "2 \<le> length (keys_T s)" and h: "REFRE + height s \<noteq> 0"
    and R: "0 \<le> scalar_resolution s"
    and n: "length (fst (scalargrid s)) = 2 * (nat (scalar_resolution s) * nat (scalar_resolution s))"
  shows "\<exists>A B. get_upward_current s = Inr [A, B] \<and>
           nrows A = nat (scalar_resolution s) \<and> ncols A = nat (scalar_resolution s) \<and>
           nrows B = nat (scalar_resolution s) \<and> ncols B = nat (scalar_resolution s) \<and>
           wf A \<and> wf B"
proof -
  from k have k1: "length (keys_T s) \<noteq> 1" "length (keys_T s) \<noteq> Suc 0" by simp_all
  note sh = engine_azimuth_shapes[OF ok] engine_legendre_shapes[OF ok al] engine_ok_D[OF ok]
  let ?c = "- (1 / 10 ^ 6) / (MU0 * (REFRE + height s))"
  let ?nn = "row (map (\<lambda>n. real (n * (n + 1))) (n_T s))"
  let ?Ju = "amap2 (\<lambda>x. ?c * x)
                 (ew2 (+)
                    (dot2 (ew2 (*) (ew2 (*) (Inr ?nn) (Inr (tor_P_scalar s)))
                                   (Inr (tor_cosmphi_scalar s)))
                          (Inr (col (tor_c s))))
                    (dot2 (ew2 (*) (ew2 (*) (Inr ?nn) (Inr (tor_P_scalar s)))
                                   (Inr (tor_sinmphi_scalar s)))
                          (Inr (col (tor_s s)))))"
  have "shE ?Ju = Some (length (fst (scalargrid s)), 1)"
    by (simp add: shE_ew sh k1 tc ts)
  then obtain Ju where Ju0: "?Ju = Inr Ju"
    and "(length (fst (scalargrid s)), 1) = (nrows Ju, ncols Ju)"
    unfolding shE_Some_iff by blast
  then have Ju: "nrows Ju = length (fst (scalargrid s))" "ncols Ju = 1" by simp_all
  from h MU0_pos have z: "MU0 \<noteq> 0" "REFRE + height s \<noteq> 0" by simp_all
  show ?thesis
    unfolding get_upward_current_def Let_def Ju0
    by (simp add: z Ju n split2_def reshape_def R)
qed


text \<open>
  Claim C8.  An engine constructed with \<open>minlat = 60\<close>, \<open>maxlat = 89.99\<close>, \<open>height = 110\<close>
  and \<open>resolution = 4\<close>, for any drivers, has a scalar grid of 32 points; the points 0 to 15
  have positive latitude and the points 16 to 31 the negated latitudes of the points 0 to
  15, in order; and with aligned Legendre columns, at least two toroidal keys and toroidal
  coefficient vectors as long as the key list, \<open>get_upward_current\<close> returns exactly two
  arrays, each of shape 4 by 4.
\<close>

theorem resolution_4_scalar_grid_and_upward_current:
  assumes i: "init gmv eag lg v By Bz tilt F107 60 89.99 110 d m0 4 = Inr s"
    and al: "aligned lg"
    and tc: "length (tor_c s) = length (keys_T s)" and ts: "length (tor_s s) = length (keys_T s)"
    and k: "2 \<le> length (keys_T s)"
  shows "length (fst (scalargrid s)) = 32 \<and> length (snd (scalargrid s)) = 32 \<and>
         (\<forall>i<16. 0 < fst (scalargrid s) ! i \<and>
                 fst (scalargrid s) ! (16 + i) = - fst (scalargrid s) ! i) \<and>
         (\<exists>A B. get_upward_current s = Inr [A, B] \<and>
            nrows A = 4 \<and> ncols A = 4 \<and> nrows B = 4 \<and> ncols B = 4 \<and> wf A \<and> wf B)"
proof -
  note ok = init_D(1)[OF i] and ht = init_D(11)[OF i] and sr = init_D(14)[OF i]
  from init_D(16)[OF i] obtain s1 s2 where
    s1: "minlat s1 = 60" "maxlat s1 = 89.99" and g: "get_scalargrid s1 4 = Inr (s2, scalargrid s)"
    by blast
  let ?L = "map (\<lambda>i. 60 + real i * ((89.99 - 60) / real (nat 4 - 1))) [0..<nat 4]"
  let ?A = "concat (replicate (nat 4) ?L)"
  from get_scalargrid_succeeds[of 4 s1] g s1
  have f: "fst (scalargrid s) = ?A @ map uminus ?A"
    by auto
  have lA: "length ?A = 16"
    by (simp add: length_concat_replicate)
  have pos: "0 < x" if "x \<in> set ?A" for x
    using that by auto
  have l1: "length (fst (scalargrid s)) = 32"
    using lA by (simp only: f length_append length_map)
  have l2: "length (snd (scalargrid s)) = 32"
    using engine_ok_D(6)[OF ok] l1 by simp
  have m: "0 < fst (scalargrid s) ! j \<and> fst (scalargrid s) ! (16 + j) = - fst (scalargrid s) ! j"
    if "j < 16" for j
  proof -
    from that lA have a: "fst (scalargrid s) ! j = ?A ! j"
      by (simp only: f nth_append if_True)
    from that lA have b: "fst (scalargrid s) ! (16 + j) = - ?A ! j"
      by (simp only: f nth_append_length_plus[of ?A "map uminus ?A" j, unfolded lA] nth_map)
    from that lA have "?A ! j \<in> set ?A" by (simp only: nth_mem)
    from pos[OF this] a b show ?thesis by simp
  qed
  have h: "REFRE + height s \<noteq> 0" using REFRE_110 ht by simp
  from upward_current_shape[OF ok al tc ts k h] sr l1
  have u: "\<exists>A B. get_upward_current s = Inr [A, B] \<and>
            nrows A = 4 \<and> ncols A = 4 \<and> nrows B = 4 \<and> ncols B = 4 \<and> wf A \<and> wf B"
    by simp
  from l1 l2 m u show ?thesis by blast
qed

theorem resolution_4_scalar_grid_and_upward_current_witness:
  "\<exists>s. init gmv_high_pol eag3 lg_all 300 (- 4) (- 3) 20 150 60 89.99 110 2 4 4 = Inr s \<and>
     aligned lg_all \<and>
     length (tor_c s) = length (keys_T s) \<and> length (tor_s s) = length (keys_T s) \<and>
     2 \<le> length (keys_T s) \<and>
     length (fst (scalargrid s)) = 32 \<and> length (snd (scalargrid s)) = 32 \<and>
     (\<exists>A B. get_upward_current s = Inr [A, B] \<and>
        nrows A = 4 \<and> ncols A = 4 \<and> nrows B = 4 \<and> ncols B = 4 \<and> wf A \<and> wf B)"
proof -
  have "\<exists>s. init gmv_high_pol eag3 lg_all 300 (- 4) (- 3) 20 150 60 89.99 110 2 4 4 = Inr s"
    by (rule demo_engine) simp
  then obtain s where
    i: "init gmv_high_pol eag3 lg_all 300 (- 4) (- 3) 20 150 60 89.99 110 2 4 4 = Inr s" ..
  note d = demo_engine_D[OF i]
  from resolution_4_scalar_grid_and_upward_current[OF i aligned_lg_all d(2,3,7)]
    i aligned_lg_all d(2,3,7)
  show ?thesis by blast
qed

section \<open>The auroral electrojet indices\<close>

lemma vstack_cols: "vstack (col xs) (col ys) = Inr (col (xs @ ys))"
  by (simp add: vstack_def col_def)

lemma row_neg:
  "row (map (\<lambda>n. - (q ^ (2 * n + 1)) * (real n + 1) / real n) ns) =
   amap uminus (row (map (\<lambda>n. q ^ (2 * n + 1) * (real n + 1) / real n) ns))"
  by (simp add: row_def amap_def)

lemma ew_neg_swap:
  assumes "wf A" and "wf B"
  shows "ew (*) (amap uminus A) B = ew (*) A (amap uminus B)"
  by (simp add: ew_amap_left[OF assms(1)] ew_amap_right[OF assms(2)])

lemma dot_ValueError: "dot A B = Inl e \<Longrightarrow> e = ValueError"
  by (simp add: dot_def split: if_splits)

lemma ae_gp:
  assumes ok: "engine_ok lg s" and al: "aligned lg"
  shows "get_AE_indices s =
     bnd (get_ground_perturbation lg s (fst (scalargrid s)) (snd (scalargrid s))) (\<lambda>r.
     bnd (split2 (snd r)) (\<lambda>h.
     bnd (amin (fst h)) (\<lambda>AL_n.
     bnd (amin (snd h)) (\<lambda>AL_s.
     bnd (amax (fst h)) (\<lambda>AU_n.
     bnd (amax (snd h)) (\<lambda>AU_s.
     Inr (AL_n, AL_s, AU_n, AU_s)))))))"
proof (cases "REFRE + height s = 0")
  case True
  then show ?thesis
    by (simp add: get_AE_indices_def get_ground_perturbation_def rr_def)
next
  case False
  define q where "q = REFRE / (REFRE + height s)"
  from False have rq: "rr s = Inr q" by (simp add: rr_def q_def)
  note c = engine_ok_cache[OF ok] and d = engine_ok_D[OF ok]
  note sh = engine_azimuth_shapes[OF ok] engine_legendre_shapes[OF ok al]
  note w = engine_wf[OF ok]
  let ?th = "map (\<lambda>x. 90 - x) (fst (scalargrid s))"
  let ?r1 = "row (map (\<lambda>n. - (q ^ (2 * n + 1)) * (real n + 1) / real n) (n_P s))"
  let ?r2 = "row (map (\<lambda>n. q ^ (2 * n + 1) * (real n + 1) / real n) (n_P s))"
  let ?C = "pol_cosmphi_scalar s" and ?S = "pol_sinmphi_scalar s"
  let ?cl = "amap cos (amap (\<lambda>x. x * pi / 180) (col (fst (scalargrid s))))"
  from c(12) obtain dP where bdP: "basis (snd (lg (N s) (M s) ?th)) (keys_P s) = Inr dP"
    and dP: "pol_dP_scalar s = amap uminus dP"
    by (cases "basis (snd (lg (N s) (M s) ?th)) (keys_P s)") auto
  have wdP: "wf dP" using bdP by (rule wf_basis)
  have e1: "ew (*) ?r1 dP = ew (*) ?r2 (pol_dP_scalar s)"
    unfolding row_neg dP by (rule ew_neg_swap) (simp_all add: wdP)
  have r2: "length (n_P s) = length (keys_P s)" "length (m_P s) = length (keys_P s)"
    by (simp_all add: d)
  have cl: "nrows ?cl = length (fst (scalargrid s))" "ncols ?cl = 1" by simp_all
  let ?k = "length (keys_P s)" and ?n = "length (fst (scalargrid s))"
  have "shE (ew (*) ?r2 (pol_dP_scalar s)) = Some (if ?k = 1 then (1, ?n) else (?n, ?k))"
    by (simp add: shE_ew sh r2)
  then obtain Gcn where Gcn: "ew (*) ?r2 (pol_dP_scalar s) = Inr Gcn"
    and "(if ?k = 1 then (1, ?n) else (?n, ?k)) = (nrows Gcn, ncols Gcn)"
    unfolding shE_Some_iff by blast
  then have sGcn: "nrows Gcn = (if ?k = 1 then 1 else ?n)" "ncols Gcn = (if ?k = 1 then ?n else ?k)"
    by (simp_all split: if_splits)
  have "shE (hstack2 (ew (*) Gcn ?C) (ew (*) Gcn ?S)) = Some (?n, if ?k = 1 then ?n + ?n else ?k + ?k)"
    by (simp add: shE_ew sh sGcn)
  then obtain Gn where Gn: "hstack2 (ew (*) Gcn ?C) (ew (*) Gcn ?S) = Inr Gn"
    and "(?n, if ?k = 1 then ?n + ?n else ?k + ?k) = (nrows Gn, ncols Gn)"
    unfolding shE_Some_iff by blast
  then have sGn: "nrows Gn = ?n" "ncols Gn = (if ?k = 1 then ?n + ?n else ?k + ?k)"
    by simp_all
  have "shE (ew2 (/) (ew2 (*) (ew (*) ?r2 (pol_P_scalar s)) (Inr (rowi (m_P s)))) (Inr ?cl)) =
        Some (?n, if ?k = 1 then ?n else ?k)"
    by (simp add: shE_ew sh r2 d)
  then obtain Gce where
    Gce: "ew2 (/) (ew2 (*) (ew (*) ?r2 (pol_P_scalar s)) (Inr (rowi (m_P s)))) (Inr ?cl) = Inr Gce"
    and "(?n, if ?k = 1 then ?n else ?k) = (nrows Gce, ncols Gce)"
    unfolding shE_Some_iff by blast
  then have sGce: "nrows Gce = ?n" "ncols Gce = (if ?k = 1 then ?n else ?k)"
    by simp_all
  have "shE (hstack2 (ew (*) (amap uminus Gce) ?S) (ew (*) Gce ?C)) =
        Some (?n, if ?k = 1 then ?n + ?n else ?k + ?k)"
    by (simp add: shE_ew sh sGce)
  then obtain Ge where Ge: "hstack2 (ew (*) (amap uminus Gce) ?S) (ew (*) Gce ?C) = Inr Ge"
    and "(?n, if ?k = 1 then ?n + ?n else ?k + ?k) = (nrows Ge, ncols Ge)"
    unfolding shE_Some_iff by blast
  then have sGe: "ncols Ge = ncols Gn"
    using sGn by simp
  let ?m = "col (pol_c s @ pol_s s)"
  let ?K = "\<lambda>Bn. bnd (split2 Bn) (\<lambda>h.
     bnd (amin (fst h)) (\<lambda>AL_n.
     bnd (amin (snd h)) (\<lambda>AL_s.
     bnd (amax (fst h)) (\<lambda>AU_n.
     bnd (amax (snd h)) (\<lambda>AU_s.
     Inr (AL_n, AL_s, AU_n, AU_s))))))"
  have AE: "get_AE_indices s = bnd (dot Gn ?m) ?K"
    unfolding get_AE_indices_def rq bnd_Inr Gcn Gn vstack_cols dot2_Inr ..
  have GP: "get_ground_perturbation lg s (fst (scalargrid s)) (snd (scalargrid s)) =
              bnd (dot Ge ?m) (\<lambda>e. bnd (dot Gn ?m) (\<lambda>n. Inr (e, n)))"
    unfolding get_ground_perturbation_def rq bnd_Inr case_prod_beta c(11) bdP azimuth_custom
      c(2) c(4) e1 Gcn Gn Gce Ge vstack_cols ..
  show ?thesis
  proof (cases "ncols Gn = nrows ?m")
    case True
    then obtain B E where "dot Gn ?m = Inr B" "dot Ge ?m = Inr E"
      using sGe by (auto simp: dot_def)
    then show ?thesis unfolding AE GP by simp
  next
    case False
    then have "dot Gn ?m = Inl ValueError" "dot Ge ?m = Inl ValueError"
      using sGe by (auto simp: dot_def)
    then show ?thesis unfolding AE GP by simp
  qed
qed


lemma rows_mk_col: "rows (mk n 1 g) = map (\<lambda>i. [g i 0]) [0..<n]"
  by (simp add: mk_def)

lemma halves_nonempty:
  assumes "0 < m"
  shows "flatten (Arr m c (take m (rows (mk (2 * m) 1 g)))) \<noteq> []"
    and "flatten (Arr m c (drop m (rows (mk (2 * m) 1 g)))) \<noteq> []"
proof -
  from assms have "take m (map (\<lambda>i. [g i 0]) [0..<2 * m]) \<noteq> []"
    and "drop m (map (\<lambda>i. [g i 0]) [0..<2 * m]) \<noteq> []"
    by simp_all
  moreover have "xs \<noteq> [] \<Longrightarrow> set xs \<subseteq> set (map (\<lambda>i. [g i 0]) [0..<2 * m]) \<Longrightarrow> concat xs \<noteq> []"
    for xs
    by (cases xs) auto
  ultimately show "flatten (Arr m c (take m (rows (mk (2 * m) 1 g)))) \<noteq> []"
    and "flatten (Arr m c (drop m (rows (mk (2 * m) 1 g)))) \<noteq> []"
    unfolding flatten_def rows_mk_col arr.sel
    by (meson set_take_subset set_drop_subset)+
qed

lemma AE_succeeds:
  assumes ok: "engine_ok lg s" and al: "aligned lg"
    and pc: "length (pol_c s) = length (keys_P s)" and ps: "length (pol_s s) = length (keys_P s)"
    and k: "2 \<le> length (keys_P s)" and h: "REFRE + height s \<noteq> 0"
    and n: "length (fst (scalargrid s)) = 2 * m" "0 < m"
  shows "\<exists>r. get_AE_indices s = Inr r"
proof -
  define q where "q = REFRE / (REFRE + height s)"
  from h have rq: "rr s = Inr q" by (simp add: rr_def q_def)
  from k have k1: "length (keys_P s) \<noteq> 1" "length (keys_P s) \<noteq> Suc 0" by simp_all
  note d = engine_ok_D[OF ok]
  note sh = engine_azimuth_shapes[OF ok] engine_legendre_shapes[OF ok al]
  have r2: "length (n_P s) = length (keys_P s)" by (simp add: d)
  let ?r2 = "row (map (\<lambda>n. q ^ (2 * n + 1) * (real n + 1) / real n) (n_P s))"
  let ?C = "pol_cosmphi_scalar s" and ?S = "pol_sinmphi_scalar s"
  let ?k = "length (keys_P s)"
  have "shE (ew (*) ?r2 (pol_dP_scalar s)) = Some (2 * m, ?k)"
    by (simp add: shE_ew sh r2 k1 n)
  then obtain Gcn where Gcn: "ew (*) ?r2 (pol_dP_scalar s) = Inr Gcn"
    and "(2 * m, ?k) = (nrows Gcn, ncols Gcn)"
    unfolding shE_Some_iff by blast
  then have sGcn: "nrows Gcn = 2 * m" "ncols Gcn = ?k" by simp_all
  have "shE (hstack2 (ew (*) Gcn ?C) (ew (*) Gcn ?S)) = Some (2 * m, ?k + ?k)"
    by (simp add: shE_ew sh sGcn n)
  then obtain Gn where Gn: "hstack2 (ew (*) Gcn ?C) (ew (*) Gcn ?S) = Inr Gn"
    and "(2 * m, ?k + ?k) = (nrows Gn, ncols Gn)"
    unfolding shE_Some_iff by blast
  then have sGn: "nrows Gn = 2 * m" "ncols Gn = ?k + ?k" by simp_all
  have dt: "dot Gn (col (pol_c s @ pol_s s)) =
          Inr (mk (2 * m) 1 (\<lambda>i j. \<Sum>l\<leftarrow>[0..<?k + ?k]. rows Gn ! i ! l * rows (col (pol_c s @ pol_s s)) ! l ! j))"
    by (simp add: dot_def sGn pc ps)
  show ?thesis
    unfolding get_AE_indices_def rq bnd_Inr Gcn Gn vstack_cols dot2_Inr dt
    using halves_nonempty[OF n(2)]
    by (simp add: split2_def amin_def amax_def)
qed


text \<open>
  Claim C7.  In an engine whose cache is the one \<open>calculate_matrices\<close> computes from aligned
  Legendre columns, and for every coefficient state, \<open>get_AE_indices\<close> returns what one gets
  from \<open>get_ground_perturbation\<close> at the coordinates of the scalar grid by splitting its
  northward output in two halves and taking the minimum and the maximum of each half:
  \<open>(AL_n, AL_s, AU_n, AU_s)\<close>, or the same error.
\<close>

theorem AE_indices_from_ground_perturbation:
  assumes "engine_ok lg s" and "aligned lg"
  shows "get_AE_indices s =
     bnd (get_ground_perturbation lg s (fst (scalargrid s)) (snd (scalargrid s))) (\<lambda>r.
     bnd (split2 (snd r)) (\<lambda>h.
     bnd (amin (fst h)) (\<lambda>AL_n.
     bnd (amin (snd h)) (\<lambda>AL_s.
     bnd (amax (fst h)) (\<lambda>AU_n.
     bnd (amax (snd h)) (\<lambda>AU_s.
     Inr (AL_n, AL_s, AU_n, AU_s)))))))"
  using assms by (rule ae_gp)

theorem AE_indices_from_ground_perturbation_witness:
  "\<exists>s r. init gmv_high_pol eag3 lg_all 300 (- 4) (- 3) 20 150 60 89.99 110 2 4 2 = Inr s \<and>
     engine_ok lg_all s \<and> aligned lg_all \<and>
     get_AE_indices s = Inr r \<and>
     bnd (get_ground_perturbation lg_all s (fst (scalargrid s)) (snd (scalargrid s))) (\<lambda>r.
     bnd (split2 (snd r)) (\<lambda>h.
     bnd (amin (fst h)) (\<lambda>AL_n.
     bnd (amin (snd h)) (\<lambda>AL_s.
     bnd (amax (fst h)) (\<lambda>AU_n.
     bnd (amax (snd h)) (\<lambda>AU_s.
     Inr (AL_n, AL_s, AU_n, AU_s))))))) = Inr r"
proof -
  have "\<exists>s. init gmv_high_pol eag3 lg_all 300 (- 4) (- 3) 20 150 60 89.99 110 2 4 2 = Inr s"
    by (rule demo_engine) simp
  then obtain s where
    i: "init gmv_high_pol eag3 lg_all 300 (- 4) (- 3) 20 150 60 89.99 110 2 4 2 = Inr s" ..
  note d = demo_engine_D[OF i]
  from init_D(16)[OF i] obtain s1 s2 where g: "get_scalargrid s1 2 = Inr (s2, scalargrid s)"
    by blast
  from get_scalargrid_succeeds[of 2 s1] g
  have n: "length (fst (scalargrid s)) = 2 * 4" by auto
  have h: "REFRE + height s \<noteq> 0" using REFRE_110 d(8) by simp
  from AE_succeeds[OF d(1) aligned_lg_all d(4,5,6) h n] obtain r where
    r: "get_AE_indices s = Inr r" by auto
  note e = AE_indices_from_ground_perturbation[OF d(1) aligned_lg_all]
  have gp: "bnd (get_ground_perturbation lg_all s (fst (scalargrid s)) (snd (scalargrid s))) (\<lambda>r.
     bnd (split2 (snd r)) (\<lambda>h.
     bnd (amin (fst h)) (\<lambda>AL_n.
     bnd (amin (snd h)) (\<lambda>AL_s.
     bnd (amax (fst h)) (\<lambda>AU_n.
     bnd (amax (snd h)) (\<lambda>AU_s.
     Inr (AL_n, AL_s, AU_n, AU_s))))))) = Inr r"
    unfolding e[symmetric] by (rule r)
  from i d(1) aligned_lg_all r gp show ?thesis by blast
qed

section \<open>What the constructor derives and checks\<close>

text \<open>
  Claim C3 asks that \<open>N\<close> and \<open>M\<close> bound the degree and the order of every key of
  \<open>keys_P\<close> as well as of \<open>keys_T\<close>.  The constructor stacks \<^verbatim>\<open>self.tor_keys\<close> with itself
  (\<open>highest tk tk\<close>), so the poloidal keys never enter.  With poloidal keys \<open>(3, 2)\<close>,
  \<open>(2, 0)\<close> and toroidal keys \<open>(1, 0)\<close>, \<open>(1, 1)\<close> the constructed state has \<open>N = 1\<close> and
  \<open>M = 1\<close>, below the poloidal key \<open>(3, 2)\<close>; and with a Legendre provider that returns
  columns only up to the degree and order it is asked for, the constructor raises
  \<^verbatim>\<open>KeyError\<close>.
\<close>

theorem init_degree_order_from_toroidal_keys_only:
  "(\<exists>s. init gmv_high_pol eag3 lg_all 1 2 3 4 5 60 89.99 110 2 4 1 = Inr s \<and>
        keys_P s = [(3, 2), (2, 0)] \<and> keys_T s = [(1, 0), (1, 1)] \<and> N s = 1 \<and> M s = 1) \<and>
   init gmv_high_pol eag3 lg_upto 1 2 3 4 5 60 89.99 110 2 4 1 = Inl KeyError"
proof -
  have a: "\<exists>s. init gmv_high_pol eag3 lg_all 1 2 3 4 5 60 89.99 110 2 4 1 = Inr s \<and>
        keys_P s = [(3, 2), (2, 0)] \<and> keys_T s = [(1, 0), (1, 1)] \<and> N s = 1 \<and> M s = 1"
    by (simp add: init_def gmv_high_pol_def key_row_def highest_def bnd_def
        get_vectorgrid_def eag3_def add1_def bool_index_def get_scalargrid_def linspace_def
        calculate_matrices_def azimuth_def amap2_def ew_def bdim_def rowi_def row_def
        col_def lg_all_def basis_def stack_keys_def mk_def amap_def Let_def)
  have b: "init gmv_high_pol eag3 lg_upto 1 2 3 4 5 60 89.99 110 2 4 1 = Inl KeyError"
    by (simp add: init_def gmv_high_pol_def key_row_def highest_def bnd_def
        get_vectorgrid_def eag3_def add1_def bool_index_def get_scalargrid_def linspace_def
        calculate_matrices_def azimuth_def amap2_def ew_def bdim_def rowi_def row_def
        col_def lg_upto_def basis_def stack_keys_def mk_def amap_def Let_def)
  from a b show ?thesis by simp
qed

text \<open>
  Claim C4 asks that the constructor fail when \<open>tor_c\<close> and \<open>tor_s\<close> differ in length, and
  that both pairs of vectors agree in length after \<open>update_model\<close>.  The assertion of the
  constructor compares \<^verbatim>\<open>len(self.pol_s)\<close> with \<^verbatim>\<open>len(self.pol_c)\<close> twice and never looks
  at the toroidal pair; \<open>update_model\<close> asserts nothing.  With a provider that returns
  \<open>tor_c\<close> of length 2 and \<open>tor_s\<close> of length 1 the constructor succeeds, and so does a
  later \<open>update_model\<close>.
\<close>

theorem init_accepts_toroidal_length_mismatch:
  "(\<exists>s. init gmv_short_tor_s eag3 lg_all 1 2 3 4 5 60 89.99 110 2 4 1 = Inr s \<and>
        length (tor_c s) = 2 \<and> length (tor_s s) = 1 \<and>
        length (tor_c (update_model gmv_short_tor_s s 1 2 3 4 5)) = 2 \<and>
        length (tor_s (update_model gmv_short_tor_s s 1 2 3 4 5)) = 1)"
  by (simp add: init_def gmv_short_tor_s_def key_row_def highest_def bnd_def
      get_vectorgrid_def eag3_def add1_def bool_index_def get_scalargrid_def linspace_def
      calculate_matrices_def azimuth_def amap2_def ew_def bdim_def rowi_def row_def
      col_def lg_all_def basis_def stack_keys_def mk_def amap_def Let_def update_model_def)

end
